theory Spec2Isabelle
  imports Complex_Main
begin

section \<open>Values exchanged with the browser and with the inference provider\<close>

text \<open>
  The route handlers of \<^verbatim>\<open>registerRoutes\<close> receive JSON request bodies, hand a
  JSON object to \<^verbatim>\<open>replicate.run\<close> and inspect whatever JSON value the provider
  sends back. A JSON object is kept as the list of its own properties in the order in which
  \<^verbatim>\<open>Object.values\<close> enumerates them; property names are distinct. Numbers are
  never computed with, only tested against zero, so they are kept as rationals.
\<close>

datatype json =
    JNull
  | JBool bool
  | JNum rat
  | JStr string
  | JArr "json list"
  | JObj "(string \<times> json) list"

text \<open>JavaScript truthiness of a JSON value, as used by \<^verbatim>\<open>!v\<close> and \<^verbatim>\<open>a || b\<close>.\<close>

fun truthy :: "json \<Rightarrow> bool" where
  "truthy JNull = False"
| "truthy (JBool b) = b"
| "truthy (JNum n) = (n \<noteq> 0)"
| "truthy (JStr s) = (s \<noteq> [])"
| "truthy (JArr xs) = True"
| "truthy (JObj kvs) = True"

text \<open>\<^verbatim>\<open>String.prototype.startsWith\<close> and \<^verbatim>\<open>String.prototype.includes\<close>.\<close>

definition startsWith :: "string \<Rightarrow> string \<Rightarrow> bool" where
  "startsWith s p = (take (length p) s = p)"

fun includes_str :: "string \<Rightarrow> string \<Rightarrow> bool" where
  "includes_str [] sub = (sub = [])"
| "includes_str (c # cs) sub = (startsWith (c # cs) sub \<or> includes_str cs sub)"

text \<open>
  Errors thrown inside a handler's \<^verbatim>\<open>try\<close> block. The two
  \<^verbatim>\<open>Invalid output format from model\<close> errors differ in whether the message
  embeds \<^verbatim>\<open>JSON.stringify(output)\<close>: the payload is \<open>Some output\<close> when it
  does and \<open>None\<close> when the message is the bare text.
\<close>

datatype handler_error =
    InvalidOutputFormat "json option"
  | InvalidResultUrl json
  | TypeError string
  | ProviderFailure string

section \<open>Result extraction of POST /api/professional-recolor\<close>

text \<open>The predicate of the \<^verbatim>\<open>some\<close>/\<^verbatim>\<open>find\<close> scan:
  \<^verbatim>\<open>typeof v === 'string' && v.startsWith('http')\<close>.\<close>

fun isHttpString :: "json \<Rightarrow> bool" where
  "isHttpString (JStr s) = startsWith s ''http''"
| "isHttpString v = False"

definition objectValues :: "(string \<times> json) list \<Rightarrow> json list" where
  "objectValues kvs = map snd kvs"

text \<open>
  The object branch (\<^verbatim>\<open>output && typeof output === 'object'\<close>) is entered by
  every object and by the empty array, whose \<^verbatim>\<open>typeof\<close> is \<^verbatim>\<open>'object'\<close>
  too and which has no property at all. \<open>props\<close> are the own properties, \<open>output\<close>
  the value itself, needed for the error message. \<^verbatim>\<open>some\<close> holds exactly when
  \<^verbatim>\<open>find\<close> returns an element, so both are one \<open>find\<close>.
\<close>

definition extractFromObject :: "json \<Rightarrow> (string \<times> json) list \<Rightarrow> handler_error + json" where
  "extractFromObject output props =
     (case map_of props ''output'' of
        Some (JStr s) \<Rightarrow> Inr (JStr s)
      | _ \<Rightarrow>
        (case map_of props ''url'' of
           Some (JStr u) \<Rightarrow> Inr (JStr u)
         | _ \<Rightarrow>
           (case find isHttpString (objectValues props) of
              Some v \<Rightarrow> Inr v
            | None \<Rightarrow> Inl (InvalidOutputFormat (Some output)))))"

text \<open>Lines 419 to 440: the branches in the order of the source.\<close>

fun extractResultUrl :: "json \<Rightarrow> handler_error + json" where
  "extractResultUrl (JArr (x # xs)) = Inr x"
| "extractResultUrl (JStr s) = Inr (JStr s)"
| "extractResultUrl (JArr []) = extractFromObject (JArr []) []"
| "extractResultUrl (JObj props) = extractFromObject (JObj props) props"
| "extractResultUrl output = Inl (InvalidOutputFormat None)"

text \<open>Lines 443 to 446: the final check on the extracted value.\<close>

fun validateResultUrl :: "json \<Rightarrow> handler_error + string" where
  "validateResultUrl (JStr s) =
     (if s = [] \<or> \<not> startsWith s ''http'' then Inl (InvalidResultUrl (JStr s)) else Inr s)"
| "validateResultUrl v = Inl (InvalidResultUrl v)"

section \<open>The prompt generator\<close>

text \<open>
  \<^verbatim>\<open>MATERIAL_TYPES\<close> and \<^verbatim>\<open>FURNITURE_PARTS\<close> are object literals, and
  \<^verbatim>\<open>generateInpaintingPrompt\<close> reads them with \<^verbatim>\<open>TABLE[key] || fallback\<close>.
  A property read on an object literal that finds no own property goes on to
  \<^verbatim>\<open>Object.prototype\<close>. The casts \<^verbatim>\<open>as keyof typeof ...\<close> are erased at
  run time, so every string is a possible key.
\<close>

definition MATERIAL_TYPES :: "(string \<times> string) list" where
  "MATERIAL_TYPES =
     [(''leather'', ''premium leather texture''),
      (''fabric'', ''high-end textile weave''),
      (''wood'', ''natural wood grain''),
      (''metal'', ''brushed metal finish''),
      (''velvet'', ''luxurious velvet upholstery''),
      (''linen'', ''natural linen fabric''),
      (''cotton'', ''premium cotton blend''),
      (''microfiber'', ''soft microfiber material'')]"

definition FURNITURE_PARTS :: "(string \<times> string) list" where
  "FURNITURE_PARTS =
     [(''cushion'', ''sofa cushion''),
      (''seat'', ''chair seat''),
      (''backrest'', ''chair backrest''),
      (''armrest'', ''chair armrest''),
      (''leg'', ''furniture leg''),
      (''table_top'', ''table surface''),
      (''drawer'', ''drawer front''),
      (''door'', ''cabinet door''),
      (''frame'', ''furniture frame'')]"

text \<open>
  The properties every object literal inherits from \<^verbatim>\<open>Object.prototype\<close> in
  Node.js. All but \<^verbatim>\<open>__proto__\<close> are built-in functions; \<^verbatim>\<open>__proto__\<close>
  reads as \<^verbatim>\<open>Object.prototype\<close> itself. Each of these values is truthy.
\<close>

datatype inherited = BuiltinFunction string | PrototypeObject

definition Object_prototype :: "(string \<times> inherited) list" where
  "Object_prototype =
     [(''constructor'', BuiltinFunction ''Object''),
      (''__defineGetter__'', BuiltinFunction ''__defineGetter__''),
      (''__defineSetter__'', BuiltinFunction ''__defineSetter__''),
      (''hasOwnProperty'', BuiltinFunction ''hasOwnProperty''),
      (''__lookupGetter__'', BuiltinFunction ''__lookupGetter__''),
      (''__lookupSetter__'', BuiltinFunction ''__lookupSetter__''),
      (''isPrototypeOf'', BuiltinFunction ''isPrototypeOf''),
      (''propertyIsEnumerable'', BuiltinFunction ''propertyIsEnumerable''),
      (''toString'', BuiltinFunction ''toString''),
      (''valueOf'', BuiltinFunction ''valueOf''),
      (''__proto__'', PrototypeObject),
      (''toLocaleString'', BuiltinFunction ''toLocaleString'')]"

text \<open>What a template literal makes of an inherited value (V8's rendering).\<close>

fun inherited_toString :: "inherited \<Rightarrow> string" where
  "inherited_toString (BuiltinFunction name) = ''function '' @ name @ ''() { [native code] }''"
| "inherited_toString PrototypeObject = ''[object Object]''"

text \<open>
  \<^verbatim>\<open>`${TABLE[key] || fallback}`\<close>: an own property wins, then an inherited one;
  the fallback is taken when the value read is falsy (\<^verbatim>\<open>undefined\<close> or the
  empty string).
\<close>

definition lookupOr :: "(string \<times> string) list \<Rightarrow> string \<Rightarrow> string \<Rightarrow> string" where
  "lookupOr table key fallback =
     (case map_of table key of
        Some v \<Rightarrow> (if v = [] then fallback else v)
      | None \<Rightarrow>
        (case map_of Object_prototype key of
           Some i \<Rightarrow> inherited_toString i
         | None \<Rightarrow> fallback))"

definition generateInpaintingPrompt :: "string \<Rightarrow> string \<Rightarrow> string \<Rightarrow> string" where
  "generateInpaintingPrompt furniturePart material color =
     (let materialDesc = lookupOr MATERIAL_TYPES material ''premium material'';
          partDesc = lookupOr FURNITURE_PARTS furniturePart ''furniture part''
      in ''Photorealistic '' @ materialDesc @ '' on '' @ partDesc @ '', '' @ color @
         '', high-end textile weave, professional product photography, 8k resolution, maintaining original lighting and shadows, seamless material transition, no color bleeding, precise edges'')"

text \<open>
  \<^verbatim>\<open>String.prototype.toUpperCase\<close> and \<^verbatim>\<open>toLowerCase\<close> on the letters
  a to z; every other character of the model's 8-bit strings is left alone.
\<close>

definition toUpperChar :: "char \<Rightarrow> char" where
  "toUpperChar c =
     (case map_of (zip ''abcdefghijklmnopqrstuvwxyz'' ''ABCDEFGHIJKLMNOPQRSTUVWXYZ'') c of
        Some u \<Rightarrow> u | None \<Rightarrow> c)"

definition toLowerChar :: "char \<Rightarrow> char" where
  "toLowerChar c =
     (case map_of (zip ''ABCDEFGHIJKLMNOPQRSTUVWXYZ'' ''abcdefghijklmnopqrstuvwxyz'') c of
        Some l \<Rightarrow> l | None \<Rightarrow> c)"

definition toUpperCase :: "string \<Rightarrow> string" where
  "toUpperCase s = map toUpperChar s"

definition toLowerCase :: "string \<Rightarrow> string" where
  "toLowerCase s = map toLowerChar s"

definition colorMap :: "(string \<times> string) list" where
  "colorMap =
     [(''#FF0000'', ''red''), (''#00FF00'', ''green''), (''#0000FF'', ''blue''),
      (''#FFFF00'', ''yellow''), (''#FF00FF'', ''magenta''), (''#00FFFF'', ''cyan''),
      (''#000000'', ''black''), (''#FFFFFF'', ''white''), (''#808080'', ''gray''),
      (''#800000'', ''maroon''), (''#008000'', ''dark green''), (''#000080'', ''navy''),
      (''#FFA500'', ''orange''), (''#800080'', ''purple''), (''#A52A2A'', ''brown''),
      (''#FFC0CB'', ''pink''), (''#F5DEB3'', ''wheat''), (''#D2B48C'', ''tan''),
      (''#8B4513'', ''saddle brown''), (''#2F4F4F'', ''dark slate gray'')]"

definition getColorName :: "string \<Rightarrow> string" where
  "getColorName hex = lookupOr colorMap (toUpperCase hex) (''color '' @ hex)"

section \<open>Requests, replies and the provider\<close>

text \<open>
  The fields the handlers destructure from \<^verbatim>\<open>req.body\<close>. A field is \<open>None\<close>
  when the body does not have it (\<^verbatim>\<open>undefined\<close>) and otherwise carries a value
  of the type the API description gives it and the client sends: strings for
  \<^verbatim>\<open>imageUrl\<close>, \<^verbatim>\<open>maskUrl\<close>, \<^verbatim>\<open>color\<close>, \<^verbatim>\<open>material\<close>,
  \<^verbatim>\<open>furniturePart\<close> and \<^verbatim>\<open>imageId\<close>, numbers for the click position and
  the tuning parameters, a boolean for \<^verbatim>\<open>autoSegment\<close>.
\<close>

record request_body =
  imageUrl :: "string option"
  maskUrl :: "string option"
  color :: "string option"
  material :: "string option"
  furniturePart :: "string option"
  promptStrength :: "rat option"
  maskBlur :: "rat option"
  clickX :: "rat option"
  clickY :: "rat option"
  imageId :: "string option"
  autoSegment :: "bool option"

text \<open>
  \<^verbatim>\<open>!field\<close> on an optional string: \<^verbatim>\<open>undefined\<close> and the empty string are
  falsy. \<open>required\<close> keeps the value of a truthy field.
\<close>

definition required :: "string option \<Rightarrow> string option" where
  "required field = (case field of None \<Rightarrow> None | Some s \<Rightarrow> if s = [] then None else Some s)"

text \<open>A destructuring default \<^verbatim>\<open>{ field = d }\<close> applies to \<^verbatim>\<open>undefined\<close> only.\<close>

definition withDefault :: "'a \<Rightarrow> 'a option \<Rightarrow> 'a" where
  "withDefault d field = (case field of None \<Rightarrow> d | Some v \<Rightarrow> v)"

text \<open>\<^verbatim>\<open>field || fallback\<close> on an optional string, and \<^verbatim>\<open>n || null\<close> on an
  optional number.\<close>

definition orElse :: "string option \<Rightarrow> string \<Rightarrow> string" where
  "orElse field fallback = (case required field of None \<Rightarrow> fallback | Some s \<Rightarrow> s)"

definition orNull :: "rat option \<Rightarrow> json" where
  "orNull field = (case field of None \<Rightarrow> JNull | Some n \<Rightarrow> if n = 0 then JNull else JNum n)"

text \<open>
  What a handler sends: \<open>Json status value\<close> is \<^verbatim>\<open>res.status(status).json(value)\<close>
  (status 200 when the source sets none); \<open>Failed status message e\<close> is the reply of a
  \<^verbatim>\<open>catch\<close> block, \<^verbatim>\<open>{message, error: e.message}\<close>.
\<close>

datatype response =
    Json nat json
  | Failed nat string handler_error

text \<open>
  \<^verbatim>\<open>replicate.run(slug, {input})\<close>. The provider is a function from the call to
  either the error its promise rejects with or the output it resolves to. A handler returns
  its reply together with the provider calls it made, in order.
\<close>

datatype provider_call = Run string json

type_synonym provider = "provider_call \<Rightarrow> handler_error + json"

type_synonym outcome = "response \<times> provider_call list"

text \<open>
  \<^verbatim>\<open>Math.floor(Math.random() * 1000000)\<close>, where \<open>random\<close> is the number
  \<^verbatim>\<open>Math.random()\<close> returned, taken as an exact rational.
\<close>

definition seedOf :: "rat \<Rightarrow> json" where
  "seedOf random = JNum (of_int \<lfloor>random * 1000000\<rfloor>)"

record process_env =
  REPLIT_DEV_DOMAIN :: "string option"

section \<open>POST /api/segment-professional\<close>

definition segment_professional :: "request_body \<Rightarrow> response" where
  "segment_professional body =
     (case required (imageUrl body) of
        None \<Rightarrow> Json 400 (JObj [(''message'', JStr ''Missing required parameter: imageUrl'')])
      | Some url \<Rightarrow>
        (let partLabel = orElse (furniturePart body) ''furniture_part'';
             boundingBox = JObj [(''x'', JNum 0), (''y'', JNum 0), (''width'', JNum 0), (''height'', JNum 0)];
             confidence = JNum 1;
             mask_url = url
         in Json 200 (JObj
              [(''maskId'', JNull),
               (''maskUrl'', JStr mask_url),
               (''partLabel'', JStr partLabel),
               (''boundingBox'', boundingBox),
               (''confidence'', confidence),
               (''clickX'', orNull (clickX body)),
               (''clickY'', orNull (clickY body))])))"

section \<open>POST /api/inpaint-professional\<close>

text \<open>
  \<^verbatim>\<open>(output as any)[0]\<close> for an output that is not a string: \<open>Inr None\<close> is
  \<^verbatim>\<open>undefined\<close>; reading a property of \<^verbatim>\<open>null\<close> throws.
\<close>

fun index0 :: "json \<Rightarrow> handler_error + json option" where
  "index0 JNull = Inl (TypeError ''Cannot read properties of null (reading '0')'')"
| "index0 (JArr []) = Inr None"
| "index0 (JArr (x # xs)) = Inr (Some x)"
| "index0 (JObj props) = Inr (map_of props ''0'')"
| "index0 (JStr []) = Inr None"
| "index0 (JStr (c # cs)) = Inr (Some (JStr [c]))"
| "index0 v = Inr None"

text \<open>Line 324:
  \<^verbatim>\<open>typeof output === 'string' ? output : (output as any)[0] || imageUrl\<close>.\<close>

definition inpaintResultUrl :: "json \<Rightarrow> string \<Rightarrow> handler_error + json" where
  "inpaintResultUrl output imgUrl =
     (case output of
        JStr s \<Rightarrow> Inr (JStr s)
      | _ \<Rightarrow>
        (case index0 output of
           Inl e \<Rightarrow> Inl e
         | Inr None \<Rightarrow> Inr (JStr imgUrl)
         | Inr (Some v) \<Rightarrow> if truthy v then Inr v else Inr (JStr imgUrl)))"

definition flux_fill_input :: "string \<Rightarrow> string \<Rightarrow> string \<Rightarrow> rat \<Rightarrow> rat \<Rightarrow> rat \<Rightarrow> json" where
  "flux_fill_input imgUrl mskUrl prompt strength blur random =
     JObj [(''image'', JStr imgUrl),
           (''mask'', JStr mskUrl),
           (''prompt'', JStr prompt),
           (''prompt_strength'', JNum strength),
           (''mask_blur'', JNum blur),
           (''num_inference_steps'', JNum 28),
           (''guidance_scale'', JNum (7 / 2)),
           (''seed'', seedOf random)]"

definition inpaint_professional :: "provider \<Rightarrow> rat \<Rightarrow> request_body \<Rightarrow> outcome" where
  "inpaint_professional provider random body =
     (case (required (imageUrl body), required (maskUrl body), required (color body)) of
        (Some imgUrl, Some mskUrl, Some col) \<Rightarrow>
          (let mat = withDefault ''fabric'' (material body);
               part = withDefault ''cushion'' (furniturePart body);
               strength = withDefault (1 / 2) (promptStrength body);
               blur = withDefault 0 (maskBlur body);
               colorName = getColorName col;
               prompt = generateInpaintingPrompt part mat colorName;
               call = Run ''black-forest-labs/flux-fill-pro''
                        (flux_fill_input imgUrl mskUrl prompt strength blur random)
           in case provider call of
                Inl e \<Rightarrow> (Failed 500 ''Failed to apply professional material change'' e, [call])
              | Inr output \<Rightarrow>
                (case inpaintResultUrl output imgUrl of
                   Inl e \<Rightarrow> (Failed 500 ''Failed to apply professional material change'' e, [call])
                 | Inr resultUrl \<Rightarrow>
                   (Json 200 (JObj
                      [(''resultUrl'', resultUrl),
                       (''prompt'', JStr prompt),
                       (''settings'', JObj
                          [(''promptStrength'', JNum strength),
                           (''maskBlur'', JNum blur),
                           (''material'', JStr mat),
                           (''furniturePart'', JStr part),
                           (''color'', JStr colorName)])]),
                    [call])))
      | _ \<Rightarrow>
          (Json 400 (JObj [(''message'', JStr ''Missing required parameters: imageUrl, maskUrl, color'')]),
           []))"

section \<open>POST /api/professional-recolor\<close>

text \<open>
  \<^verbatim>\<open>s.split(sep)\<close> for a non-empty separator: the pieces between the occurrences
  of \<open>sep\<close>, found from the left. \<open>skip\<close> counts the characters of a separator
  still to be passed over, \<open>piece\<close> is the current piece, reversed.
\<close>

fun split_from :: "string \<Rightarrow> nat \<Rightarrow> string \<Rightarrow> string \<Rightarrow> string list" where
  "split_from sep skip piece [] = [rev piece]"
| "split_from sep skip piece (c # cs) =
     (if 0 < skip then split_from sep (skip - 1) piece cs
      else if startsWith (c # cs) sep then rev piece # split_from sep (length sep - 1) [] cs
      else split_from sep 0 (c # piece) cs)"

definition split_str :: "string \<Rightarrow> string \<Rightarrow> string list" where
  "split_str s sep = split_from sep 0 [] s"

text \<open>\<^verbatim>\<open>xs[1]\<close>, \<open>None\<close> for \<^verbatim>\<open>undefined\<close>.\<close>

fun index1 :: "'a list \<Rightarrow> 'a option" where
  "index1 (x # y # ys) = Some y"
| "index1 xs = None"

definition isDigit :: "char \<Rightarrow> bool" where
  "isDigit c = (c \<in> set ''0123456789'')"

text \<open>
  \<^verbatim>\<open>s.replace(/PREFIX\d+/, replacement)\<close> for a literal, non-empty prefix: the
  leftmost place where the prefix is followed by a digit, with all the digits that follow,
  is replaced, once. The replacement is a host name here and has no \<^verbatim>\<open>$\<close>
  pattern in it.
\<close>

fun replace_port :: "string \<Rightarrow> string \<Rightarrow> string \<Rightarrow> string" where
  "replace_port pre replacement [] = []"
| "replace_port pre replacement (c # cs) =
     (if startsWith (c # cs) pre \<and> takeWhile isDigit (drop (length pre) (c # cs)) \<noteq> []
      then replacement @ dropWhile isDigit (drop (length pre) (c # cs))
      else c # replace_port pre replacement cs)"

text \<open>Lines 367 to 396. An environment variable that is unset or empty is falsy.\<close>

definition processImageUrl :: "process_env \<Rightarrow> string \<Rightarrow> string" where
  "processImageUrl env url =
     (let processedImageUrl =
        (if startsWith url ''/uploads'' \<or> startsWith url ''/attached_assets'' then
           (let domain = (case required (REPLIT_DEV_DOMAIN env) of
                            Some d \<Rightarrow> ''https://'' @ d | None \<Rightarrow> [])
            in if domain \<noteq> [] then domain @ url else url)
         else if startsWith url ''/@fs'' then
           (case required (REPLIT_DEV_DOMAIN env) of
              Some domain \<Rightarrow>
                (case required (index1 (split_str url ''/workspace/'')) of
                   Some workspacePath \<Rightarrow> ''https://'' @ domain @ ''/'' @ workspacePath
                 | None \<Rightarrow> url)
            | None \<Rightarrow> url)
         else url)
      in if includes_str processedImageUrl ''localhost'' \<or> includes_str processedImageUrl ''127.0.0.1'' then
           (case required (REPLIT_DEV_DOMAIN env) of
              Some domain \<Rightarrow>
                replace_port ''http://127.0.0.1:'' (''https://'' @ domain)
                  (replace_port ''http://localhost:'' (''https://'' @ domain) processedImageUrl)
            | None \<Rightarrow> processedImageUrl)
         else processedImageUrl)"

definition recolor_prompt :: "string \<Rightarrow> string \<Rightarrow> string \<Rightarrow> string" where
  "recolor_prompt colorName mat part =
     colorName @ '' '' @ mat @ '' '' @ part @
     '', professional furniture photography, high-end, realistic, maintaining original lighting and shadows, seamless material transition, photorealistic''"

definition sdxl_input :: "string \<Rightarrow> rat \<Rightarrow> json" where
  "sdxl_input prompt random =
     JObj [(''prompt'', JStr prompt),
           (''negative_prompt'', JStr ''blurry, low quality, distorted, deformed, pixelated''),
           (''num_outputs'', JNum 1),
           (''scheduler'', JStr ''K_EULER''),
           (''num_inference_steps'', JNum 50),
           (''guidance_scale'', JNum (15 / 2)),
           (''seed'', seedOf random)]"

text \<open>
  The handler. \<open>finalUrl\<close> is the rewritten image URL of lines 367 to 396, which the
  source only logs; it is returned next to the outcome so that it can be compared with what
  the provider is sent. It is \<open>None\<close> when the request is answered before that point.
\<close>

definition professional_recolor ::
    "process_env \<Rightarrow> provider \<Rightarrow> rat \<Rightarrow> request_body \<Rightarrow> outcome \<times> string option" where
  "professional_recolor env provider random body =
     (case (required (imageUrl body), required (color body)) of
        (Some imgUrl, Some col) \<Rightarrow>
          (let mat = withDefault ''fabric'' (material body);
               part = withDefault ''cushion'' (furniturePart body);
               colorName = getColorName col;
               prompt = recolor_prompt colorName mat part;
               finalUrl = processImageUrl env imgUrl;
               call = Run ''stability-ai/sdxl'' (sdxl_input prompt random)
           in case provider call of
                Inl e \<Rightarrow> ((Failed 500 ''Failed to change furniture color'' e, [call]), Some finalUrl)
              | Inr output \<Rightarrow>
                (case extractResultUrl output of
                   Inl e \<Rightarrow> ((Failed 500 ''Failed to change furniture color'' e, [call]), Some finalUrl)
                 | Inr extracted \<Rightarrow>
                   (case validateResultUrl extracted of
                      Inl e \<Rightarrow> ((Failed 500 ''Failed to change furniture color'' e, [call]), Some finalUrl)
                    | Inr resultUrl \<Rightarrow>
                      ((Json 200 (JObj
                          [(''resultUrl'', JStr resultUrl),
                           (''maskUrl'', JStr imgUrl),
                           (''prompt'', JStr prompt),
                           (''partLabel'', JStr part),
                           (''settings'', JObj
                              [(''material'', JStr mat),
                               (''color'', JStr colorName),
                               (''furniturePart'', JStr part)])]),
                        [call]),
                       Some finalUrl))))
      | _ \<Rightarrow>
          ((Json 400 (JObj [(''message'', JStr ''Missing required parameters: imageUrl, color'')]), []),
           None))"

section \<open>POST /api/upload\<close>

definition ALLOWED_MIME_TYPES :: "string list" where
  "ALLOWED_MIME_TYPES = [''image/jpeg'', ''image/jpg'', ''image/png'', ''image/gif'', ''image/webp'']"

definition fileSize :: nat where
  "fileSize = 10 * 1024 * 1024"

text \<open>The uploaded part as multer's memory storage presents it; \<^verbatim>\<open>file.size\<close> is
  the length of the buffer.\<close>

record upload_file =
  originalname :: string
  mimetype :: string
  buffer :: string

datatype upload_error = InvalidFileType | LimitFileSize

text \<open>The \<^verbatim>\<open>fileFilter\<close> callback: \<open>None\<close> is \<^verbatim>\<open>cb(null, true)\<close>.\<close>

definition fileFilter :: "upload_file \<Rightarrow> upload_error option" where
  "fileFilter file =
     (if mimetype file \<in> set ALLOWED_MIME_TYPES then None else Some InvalidFileType)"

text \<open>
  \<^verbatim>\<open>upload.single("image")\<close> with the options of lines 27 to 37, by multer's
  contract: the filter is asked before the part is read; a part it refuses, or one longer
  than \<^verbatim>\<open>limits.fileSize\<close>, ends the request with that error and the route
  handler does not run; a request without the part reaches the handler with
  \<^verbatim>\<open>req.file\<close> undefined.
\<close>

definition upload_single :: "upload_file option \<Rightarrow> upload_error + upload_file option" where
  "upload_single part =
     (case part of
        None \<Rightarrow> Inr None
      | Some file \<Rightarrow>
        (case fileFilter file of
           Some e \<Rightarrow> Inl e
         | None \<Rightarrow> if fileSize < length (buffer file) then Inl LimitFileSize else Inr (Some file)))"

text \<open>
  The upload directory is a map from paths to contents. \<open>extname\<close> is Node's
  \<^verbatim>\<open>path.extname\<close>, \<open>uuid\<close> the string \<^verbatim>\<open>randomUUID()\<close> returned,
  \<open>dir\<close> the constant \<^verbatim>\<open>UPLOAD_DIR\<close>, and \<open>written\<close> tells whether
  \<^verbatim>\<open>writeFile\<close> fulfilled. The file name has no path separator, so
  \<^verbatim>\<open>join\<close> puts one between directory and name.
\<close>

type_synonym disk = "string \<Rightarrow> string option"

definition safeFileName :: "(string \<Rightarrow> string) \<Rightarrow> string \<Rightarrow> upload_file \<Rightarrow> string" where
  "safeFileName extname uuid file = uuid @ toLowerCase (extname (originalname file))"

definition upload_handler ::
    "process_env \<Rightarrow> (string \<Rightarrow> string) \<Rightarrow> string \<Rightarrow> string \<Rightarrow> bool \<Rightarrow> disk \<Rightarrow>
     upload_file option \<Rightarrow> response \<times> disk" where
  "upload_handler env extname dir uuid written files part =
     (case part of
        None \<Rightarrow> (Json 400 (JObj [(''message'', JStr ''No file uploaded'')]), files)
      | Some file \<Rightarrow>
        (let filePath = dir @ ''/'' @ safeFileName extname uuid file
         in if \<not> written
            then (Json 500 (JObj [(''message'', JStr ''Failed to upload file'')]), files)
            else
              (let imagePath = ''/uploads/'' @ safeFileName extname uuid file;
                   domain = (case required (REPLIT_DEV_DOMAIN env) of
                               Some d \<Rightarrow> ''https://'' @ d | None \<Rightarrow> ''http://localhost:5000'');
                   fullUrl = domain @ imagePath
               in (Json 200 (JObj
                     [(''path'', JStr imagePath),
                      (''fullUrl'', JStr fullUrl),
                      (''filename'', JStr (originalname file)),
                      (''size'', JNum (of_nat (length (buffer file)))),
                      (''mimetype'', JStr (mimetype file))]),
                   files(filePath \<mapsto> buffer file)))))"

text \<open>The whole route: an error of the middleware goes to Express, not to the handler.\<close>

datatype upload_reply = Rejected upload_error | Handled response

definition post_upload ::
    "process_env \<Rightarrow> (string \<Rightarrow> string) \<Rightarrow> string \<Rightarrow> string \<Rightarrow> bool \<Rightarrow> disk \<Rightarrow>
     upload_file option \<Rightarrow> upload_reply \<times> disk" where
  "post_upload env extname dir uuid written files part =
     (case upload_single part of
        Inl e \<Rightarrow> (Rejected e, files)
      | Inr accepted \<Rightarrow>
        (case upload_handler env extname dir uuid written files accepted of
           (reply, files') \<Rightarrow> (Handled reply, files')))"

section \<open>The ledger\<close>

text \<open>
  The tables of the migration. A row keeps its primary key and its foreign keys; the other
  columns of a dependent table are one JSON value. \<open>recent_project_id\<close> is nullable.
\<close>

type_synonym uuid = string

record project_row =
  project_id :: uuid
  project_name :: string
  project_description :: "string option"
  project_preview_image_url :: "string option"
  project_created_at :: nat
  project_updated_at :: nat

record image_row =
  image_id :: uuid
  image_project_id :: uuid
  image_cols :: json

record mask_row =
  mask_id :: uuid
  mask_image_id :: uuid
  mask_cols :: json

record color_row =
  color_id :: uuid
  color_project_id :: uuid
  color_mask_id :: uuid
  color_cols :: json

record result_row =
  result_id :: uuid
  result_project_id :: uuid
  result_mask_id :: uuid
  result_cols :: json

record recent_row =
  recent_id :: uuid
  recent_project_id :: "uuid option"
  recent_cols :: json

record canvas_row =
  canvas_id :: uuid
  canvas_project_id :: uuid
  canvas_cols :: json

record database =
  projects :: "project_row list"
  project_images :: "image_row list"
  segmentation_masks :: "mask_row list"
  color_applications :: "color_row list"
  professional_results :: "result_row list"
  recent_colors :: "recent_row list"
  canvas_states :: "canvas_row list"

text \<open>
  \<^verbatim>\<open>db.delete(projects).where(eq(projects.id, id))\<close> under the foreign keys of the
  migration, every one of which is \<^verbatim>\<open>ON DELETE CASCADE\<close>: the images of the
  project go with it, the masks of those images go with them, and a color application or a
  professional result goes with its project or with its mask.
\<close>

definition delete_project :: "uuid \<Rightarrow> database \<Rightarrow> database" where
  "delete_project pid db =
     (let dead_images = map image_id (filter (\<lambda>i. image_project_id i = pid) (project_images db));
          dead_masks = map mask_id
             (filter (\<lambda>m. mask_image_id m \<in> set dead_images) (segmentation_masks db))
      in \<lparr>projects = filter (\<lambda>p. project_id p \<noteq> pid) (projects db),
          project_images = filter (\<lambda>i. image_project_id i \<noteq> pid) (project_images db),
          segmentation_masks =
            filter (\<lambda>m. mask_image_id m \<notin> set dead_images) (segmentation_masks db),
          color_applications =
            filter (\<lambda>c. color_project_id c \<noteq> pid \<and> color_mask_id c \<notin> set dead_masks)
              (color_applications db),
          professional_results =
            filter (\<lambda>r. result_project_id r \<noteq> pid \<and> result_mask_id r \<notin> set dead_masks)
              (professional_results db),
          recent_colors = filter (\<lambda>r. recent_project_id r \<noteq> Some pid) (recent_colors db),
          canvas_states = filter (\<lambda>s. canvas_project_id s \<noteq> pid) (canvas_states db)\<rparr>)"

text \<open>What the project routes send.\<close>

datatype ledger_reply =
    ProjectDetail project_row "image_row list" "color_row list"
  | ProjectJson project_row
  | Message nat string

text \<open>GET /api/projects/:id.\<close>

definition get_project :: "uuid \<Rightarrow> database \<Rightarrow> ledger_reply" where
  "get_project pid db =
     (case take 1 (filter (\<lambda>p. project_id p = pid) (projects db)) of
        [] \<Rightarrow> Message 404 ''Project not found''
      | project # rest \<Rightarrow>
          ProjectDetail project
            (filter (\<lambda>i. image_project_id i = pid) (project_images db))
            (filter (\<lambda>c. color_project_id c = pid) (color_applications db)))"

text \<open>
  PUT /api/projects/:id. \<^verbatim>\<open>insertProjectSchema\<close> is declared in the shared schema
  module, which is not among the source files: \<open>parse\<close> stands for its
  \<^verbatim>\<open>parse\<close> (\<open>None\<close> when it throws a ZodError) and \<open>setCols\<close> for the
  columns the validated object sets. \<open>now\<close> is \<^verbatim>\<open>new Date()\<close>.
\<close>

definition put_project ::
    "(json \<Rightarrow> 'v option) \<Rightarrow> ('v \<Rightarrow> project_row \<Rightarrow> project_row) \<Rightarrow> nat \<Rightarrow> uuid \<Rightarrow> json \<Rightarrow>
     database \<Rightarrow> ledger_reply \<times> database" where
  "put_project parse setCols now pid body db =
     (case parse body of
        None \<Rightarrow> (Message 400 ''Invalid project data'', db)
      | Some validated \<Rightarrow>
        (let change = (\<lambda>p. (setCols validated p)\<lparr>project_updated_at := now\<rparr>);
             db' = db\<lparr>projects :=
                      map (\<lambda>p. if project_id p = pid then change p else p) (projects db)\<rparr>;
             returning = map change (filter (\<lambda>p. project_id p = pid) (projects db))
         in case returning of
              [] \<Rightarrow> (Message 404 ''Project not found'', db')
            | updatedProject # rest \<Rightarrow> (ProjectJson updatedProject, db')))"

text \<open>DELETE /api/projects/:id.\<close>

definition delete_project_route :: "uuid \<Rightarrow> database \<Rightarrow> ledger_reply \<times> database" where
  "delete_project_route pid db = (Message 200 ''Project deleted successfully'', delete_project pid db)"

text \<open>The body \<^verbatim>\<open>{}\<close>, from which the example requests below are built.\<close>

definition empty_body :: request_body where
  "empty_body = \<lparr>imageUrl = None, maskUrl = None, color = None, material = None,
     furniturePart = None, promptStrength = None, maskBlur = None, clickX = None,
     clickY = None, imageId = None, autoSegment = None\<rparr>"

text \<open>
  The invariant the foreign keys stand for: every dependent row refers to a row that
  exists. Only \<^verbatim>\<open>recent_colors.project_id\<close> may be null.
\<close>

definition referential_integrity :: "database \<Rightarrow> bool" where
  "referential_integrity db =
     ((\<forall>i\<in>set (project_images db). image_project_id i \<in> set (map project_id (projects db))) \<and>
      (\<forall>m\<in>set (segmentation_masks db). mask_image_id m \<in> set (map image_id (project_images db))) \<and>
      (\<forall>c\<in>set (color_applications db).
         color_project_id c \<in> set (map project_id (projects db)) \<and>
         color_mask_id c \<in> set (map mask_id (segmentation_masks db))) \<and>
      (\<forall>r\<in>set (professional_results db).
         result_project_id r \<in> set (map project_id (projects db)) \<and>
         result_mask_id r \<in> set (map mask_id (segmentation_masks db))) \<and>
      (\<forall>r\<in>set (recent_colors db).
         recent_project_id r = None \<or>
         recent_project_id r \<in> set (map (\<lambda>p. Some (project_id p)) (projects db))) \<and>
      (\<forall>s\<in>set (canvas_states db). canvas_project_id s \<in> set (map project_id (projects db))))"

text \<open>
  A mask belongs to a project through its image; \<open>db\<close> is the database in which the
  image is looked up.
\<close>

definition mask_of_project :: "database \<Rightarrow> uuid \<Rightarrow> mask_row \<Rightarrow> bool" where
  "mask_of_project db pid m =
     (\<exists>i\<in>set (project_images db). image_id i = mask_image_id m \<and> image_project_id i = pid)"

definition mask_id_of_project :: "database \<Rightarrow> uuid \<Rightarrow> uuid \<Rightarrow> bool" where
  "mask_id_of_project db pid mid =
     (\<exists>m\<in>set (segmentation_masks db). mask_id m = mid \<and> mask_of_project db pid m)"

definition empty_database :: database where
  "empty_database =
     \<lparr>projects = [], project_images = [], segmentation_masks = [], color_applications = [],
      professional_results = [], recent_colors = [], canvas_states = []\<rparr>"

text \<open>
  A small database with two projects; a color application of the second project uses a
  mask of the first.
\<close>

definition example_database :: database where
  "example_database =
     \<lparr>projects =
        [\<lparr>project_id = ''p1'', project_name = ''Sofa'', project_description = None,
          project_preview_image_url = None, project_created_at = 1, project_updated_at = 1\<rparr>,
         \<lparr>project_id = ''p2'', project_name = ''Chair'', project_description = None,
          project_preview_image_url = None, project_created_at = 2, project_updated_at = 2\<rparr>],
      project_images =
        [\<lparr>image_id = ''i1'', image_project_id = ''p1'', image_cols = JNull\<rparr>,
         \<lparr>image_id = ''i2'', image_project_id = ''p2'', image_cols = JNull\<rparr>],
      segmentation_masks =
        [\<lparr>mask_id = ''m1'', mask_image_id = ''i1'', mask_cols = JNull\<rparr>,
         \<lparr>mask_id = ''m2'', mask_image_id = ''i2'', mask_cols = JNull\<rparr>],
      color_applications =
        [\<lparr>color_id = ''c1'', color_project_id = ''p1'', color_mask_id = ''m1'', color_cols = JNull\<rparr>,
         \<lparr>color_id = ''c2'', color_project_id = ''p2'', color_mask_id = ''m2'', color_cols = JNull\<rparr>,
         \<lparr>color_id = ''c3'', color_project_id = ''p2'', color_mask_id = ''m1'', color_cols = JNull\<rparr>],
      professional_results =
        [\<lparr>result_id = ''r1'', result_project_id = ''p1'', result_mask_id = ''m1'', result_cols = JNull\<rparr>,
         \<lparr>result_id = ''r2'', result_project_id = ''p2'', result_mask_id = ''m2'', result_cols = JNull\<rparr>],
      recent_colors =
        [\<lparr>recent_id = ''h1'', recent_project_id = Some ''p1'', recent_cols = JNull\<rparr>,
         \<lparr>recent_id = ''h2'', recent_project_id = None, recent_cols = JNull\<rparr>],
      canvas_states =
        [\<lparr>canvas_id = ''s1'', canvas_project_id = ''p1'', canvas_cols = JNull\<rparr>,
         \<lparr>canvas_id = ''s2'', canvas_project_id = ''p2'', canvas_cols = JNull\<rparr>]\<rparr>"

section \<open>Properties of the request validation\<close>

lemma required_None_iff: "required field = None \<longleftrightarrow> field = None \<or> field = Some []"
  by (simp add: required_def split: option.splits)

lemma required_Some_iff: "required field = Some s \<longleftrightarrow> field = Some s \<and> s \<noteq> []"
  by (auto simp add: required_def split: option.splits)

text \<open>
  C4. POST /api/segment-professional answers a request whose \<^verbatim>\<open>imageUrl\<close> is
  present with status 200 and a body whose \<^verbatim>\<open>maskUrl\<close> is that very
  \<^verbatim>\<open>imageUrl\<close>, next to \<^verbatim>\<open>maskId\<close>, \<^verbatim>\<open>partLabel\<close>,
  \<^verbatim>\<open>boundingBox\<close>, \<^verbatim>\<open>confidence\<close>, \<^verbatim>\<open>clickX\<close> and
  \<^verbatim>\<open>clickY\<close>; a request without \<^verbatim>\<open>imageUrl\<close> is answered with 400.
  The handler's test is \<^verbatim>\<open>!imageUrl\<close>: present means a non-empty string, and
  an empty \<^verbatim>\<open>imageUrl\<close> is answered like an absent one.
\<close>

theorem segment_professional_echo:
  "(imageUrl body = Some url \<and> url \<noteq> [] \<longrightarrow>
      segment_professional body =
        Json 200 (JObj
          [(''maskId'', JNull),
           (''maskUrl'', JStr url),
           (''partLabel'', JStr (orElse (furniturePart body) ''furniture_part'')),
           (''boundingBox'', JObj [(''x'', JNum 0), (''y'', JNum 0), (''width'', JNum 0), (''height'', JNum 0)]),
           (''confidence'', JNum 1),
           (''clickX'', orNull (clickX body)),
           (''clickY'', orNull (clickY body))])) \<and>
   (imageUrl body' = None \<or> imageUrl body' = Some [] \<longrightarrow>
      segment_professional body' =
        Json 400 (JObj [(''message'', JStr ''Missing required parameter: imageUrl'')]))"
proof (intro conjI impI)
  assume "imageUrl body = Some url \<and> url \<noteq> []"
  then have "required (imageUrl body) = Some url"
    by (simp add: required_Some_iff)
  then show "segment_professional body =
        Json 200 (JObj
          [(''maskId'', JNull),
           (''maskUrl'', JStr url),
           (''partLabel'', JStr (orElse (furniturePart body) ''furniture_part'')),
           (''boundingBox'', JObj [(''x'', JNum 0), (''y'', JNum 0), (''width'', JNum 0), (''height'', JNum 0)]),
           (''confidence'', JNum 1),
           (''clickX'', orNull (clickX body)),
           (''clickY'', orNull (clickY body))])"
    by (simp add: segment_professional_def)
next
  assume "imageUrl body' = None \<or> imageUrl body' = Some []"
  then have "required (imageUrl body') = None"
    by (simp add: required_None_iff)
  then show "segment_professional body' =
        Json 400 (JObj [(''message'', JStr ''Missing required parameter: imageUrl'')])"
    by (simp add: segment_professional_def)
qed

theorem segment_professional_echo_witness:
  "segment_professional (empty_body\<lparr>imageUrl := Some ''http://x/a.png'', clickX := Some 12\<rparr>) =
     Json 200 (JObj
       [(''maskId'', JNull),
        (''maskUrl'', JStr ''http://x/a.png''),
        (''partLabel'', JStr ''furniture_part''),
        (''boundingBox'', JObj [(''x'', JNum 0), (''y'', JNum 0), (''width'', JNum 0), (''height'', JNum 0)]),
        (''confidence'', JNum 1),
        (''clickX'', JNum 12),
        (''clickY'', JNull)]) \<and>
   segment_professional empty_body =
     Json 400 (JObj [(''message'', JStr ''Missing required parameter: imageUrl'')])"
  using segment_professional_echo
    [of "empty_body\<lparr>imageUrl := Some ''http://x/a.png'', clickX := Some 12\<rparr>" "''http://x/a.png''" empty_body]
  by (simp add: empty_body_def orElse_def orNull_def required_def)

text \<open>
  C3. A POST /api/professional-recolor request that lacks \<^verbatim>\<open>imageUrl\<close> or
  \<^verbatim>\<open>color\<close>, and a POST /api/inpaint-professional request that lacks
  \<^verbatim>\<open>imageUrl\<close>, \<^verbatim>\<open>maskUrl\<close> or \<^verbatim>\<open>color\<close>, is answered with
  400, whatever the provider would do, and the list of provider calls made is empty. An
  empty string counts as lacking.
\<close>

theorem missing_parameters_bad_request:
  "(imageUrl body = None \<or> imageUrl body = Some [] \<or> color body = None \<or> color body = Some [] \<longrightarrow>
      professional_recolor env provider random body =
        ((Json 400 (JObj [(''message'', JStr ''Missing required parameters: imageUrl, color'')]), []), None)) \<and>
   (imageUrl body' = None \<or> imageUrl body' = Some [] \<or> maskUrl body' = None \<or> maskUrl body' = Some [] \<or>
    color body' = None \<or> color body' = Some [] \<longrightarrow>
      inpaint_professional provider' random' body' =
        (Json 400 (JObj [(''message'', JStr ''Missing required parameters: imageUrl, maskUrl, color'')]), []))"
proof (intro conjI impI)
  assume "imageUrl body = None \<or> imageUrl body = Some [] \<or> color body = None \<or> color body = Some []"
  then have "required (imageUrl body) = None \<or> required (color body) = None"
    by (auto simp add: required_None_iff)
  then show "professional_recolor env provider random body =
        ((Json 400 (JObj [(''message'', JStr ''Missing required parameters: imageUrl, color'')]), []), None)"
    by (auto simp add: professional_recolor_def split: option.splits)
next
  assume "imageUrl body' = None \<or> imageUrl body' = Some [] \<or> maskUrl body' = None \<or> maskUrl body' = Some [] \<or>
    color body' = None \<or> color body' = Some []"
  then have "required (imageUrl body') = None \<or> required (maskUrl body') = None \<or> required (color body') = None"
    by (auto simp add: required_None_iff)
  then show "inpaint_professional provider' random' body' =
        (Json 400 (JObj [(''message'', JStr ''Missing required parameters: imageUrl, maskUrl, color'')]), [])"
    by (auto simp add: inpaint_professional_def split: option.splits)
qed

theorem missing_parameters_bad_request_witness:
  "professional_recolor \<lparr>REPLIT_DEV_DOMAIN = None\<rparr> (\<lambda>call. Inr (JArr [JStr ''http://result/b.png'']))
       (1 / 3) (empty_body\<lparr>imageUrl := Some ''http://x/a.png''\<rparr>) =
     ((Json 400 (JObj [(''message'', JStr ''Missing required parameters: imageUrl, color'')]), []), None) \<and>
   inpaint_professional (\<lambda>call. Inr (JArr [JStr ''http://result/b.png'']))
       (1 / 3) (empty_body\<lparr>imageUrl := Some ''http://x/a.png'', color := Some ''#FF0000''\<rparr>) =
     (Json 400 (JObj [(''message'', JStr ''Missing required parameters: imageUrl, maskUrl, color'')]), [])"
  using missing_parameters_bad_request
    [where body = "empty_body\<lparr>imageUrl := Some ''http://x/a.png''\<rparr>"
       and env = "\<lparr>REPLIT_DEV_DOMAIN = None\<rparr>"
       and provider = "\<lambda>call. Inr (JArr [JStr ''http://result/b.png''])"
       and random = "1 / 3"
       and body' = "empty_body\<lparr>imageUrl := Some ''http://x/a.png'', color := Some ''#FF0000''\<rparr>"
       and provider' = "\<lambda>call. Inr (JArr [JStr ''http://result/b.png''])"
       and random' = "1 / 3"]
  by (simp add: empty_body_def)

section \<open>Properties of the result extraction\<close>

lemma find_first:
  "\<forall>x\<in>set xs. \<not> P x \<Longrightarrow> P y \<Longrightarrow> find P (xs @ y # ys) = Some y"
  by (induction xs) simp_all

lemma find_none: "\<forall>x\<in>set xs. \<not> P x \<Longrightarrow> find P xs = None"
  by (induction xs) simp_all

lemma extractFromObject_output:
  "map_of props ''output'' = Some (JStr s) \<Longrightarrow> extractFromObject output props = Inr (JStr s)"
  by (simp add: extractFromObject_def)

lemma extractFromObject_skip_output:
  assumes "\<forall>s. map_of props ''output'' \<noteq> Some (JStr s)"
  shows "extractFromObject output props =
     (case map_of props ''url'' of
        Some (JStr u) \<Rightarrow> Inr (JStr u)
      | _ \<Rightarrow>
        (case find isHttpString (objectValues props) of
           Some v \<Rightarrow> Inr v
         | None \<Rightarrow> Inl (InvalidOutputFormat (Some output))))"
  using assms by (simp add: extractFromObject_def split: option.splits json.splits)

lemma extractFromObject_url:
  assumes "\<forall>s. map_of props ''output'' \<noteq> Some (JStr s)" and "map_of props ''url'' = Some (JStr u)"
  shows "extractFromObject output props = Inr (JStr u)"
  by (simp add: extractFromObject_skip_output [OF assms(1)] assms(2))

lemma extractFromObject_scan:
  assumes "\<forall>s. map_of props ''output'' \<noteq> Some (JStr s)" and "\<forall>s. map_of props ''url'' \<noteq> Some (JStr s)"
  shows "extractFromObject output props =
        (case find isHttpString (objectValues props) of
           Some v \<Rightarrow> Inr v
         | None \<Rightarrow> Inl (InvalidOutputFormat (Some output)))"
  using assms(2) by (simp add: extractFromObject_skip_output [OF assms(1)] split: option.splits json.splits)

lemma recolor_after_provider:
  assumes "required (imageUrl body) = Some imgUrl" and "required (color body) = Some col"
  shows "fst (fst (professional_recolor env (\<lambda>call. Inr out) random body)) =
     (case extractResultUrl out of
        Inl e \<Rightarrow> Failed 500 ''Failed to change furniture color'' e
      | Inr extracted \<Rightarrow>
        (case validateResultUrl extracted of
           Inl e \<Rightarrow> Failed 500 ''Failed to change furniture color'' e
         | Inr resultUrl \<Rightarrow>
             Json 200 (JObj
               [(''resultUrl'', JStr resultUrl),
                (''maskUrl'', JStr imgUrl),
                (''prompt'', JStr (recolor_prompt (getColorName col)
                    (withDefault ''fabric'' (material body)) (withDefault ''cushion'' (furniturePart body)))),
                (''partLabel'', JStr (withDefault ''cushion'' (furniturePart body))),
                (''settings'', JObj
                   [(''material'', JStr (withDefault ''fabric'' (material body))),
                    (''color'', JStr (getColorName col)),
                    (''furniturePart'', JStr (withDefault ''cushion'' (furniturePart body)))])])))"
  using assms by (simp add: professional_recolor_def Let_def split: sum.splits)

text \<open>
  C1, as amended. The result of POST /api/professional-recolor is read off the provider's
  response in a fixed order: a string is taken as it is; a non-empty list gives its first
  element; an object gives its \<^verbatim>\<open>output\<close> field if that is a string, else its
  \<^verbatim>\<open>url\<close> field if that is a string, else the first of its field values that is a
  string beginning with \<^verbatim>\<open>http\<close>. An object with none of these, and the empty
  list, fail with the invalid-output error whose message carries the payload; the responses
  \<^verbatim>\<open>null\<close>, a boolean and a number fail with the invalid-output error whose
  message does not carry it. A request whose extraction fails is answered with 500 and
  that error.
\<close>

theorem extractResultUrl_precedence:
  "extractResultUrl (JStr s) = Inr (JStr s) \<and>
   extractResultUrl (JArr (x # xs)) = Inr x \<and>
   (map_of po ''output'' = Some (JStr so) \<longrightarrow> extractResultUrl (JObj po) = Inr (JStr so)) \<and>
   ((\<forall>s. map_of pu ''output'' \<noteq> Some (JStr s)) \<and> map_of pu ''url'' = Some (JStr su) \<longrightarrow>
      extractResultUrl (JObj pu) = Inr (JStr su)) \<and>
   ((\<forall>s. map_of ph ''output'' \<noteq> Some (JStr s)) \<and> (\<forall>s. map_of ph ''url'' \<noteq> Some (JStr s)) \<and>
    ph = before @ (k, JStr h) # after \<and> startsWith h ''http'' \<and>
    (\<forall>v\<in>set (objectValues before). \<not> isHttpString v) \<longrightarrow>
      extractResultUrl (JObj ph) = Inr (JStr h)) \<and>
   ((\<forall>s. map_of pn ''output'' \<noteq> Some (JStr s)) \<and> (\<forall>s. map_of pn ''url'' \<noteq> Some (JStr s)) \<and>
    (\<forall>v\<in>set (objectValues pn). \<not> isHttpString v) \<longrightarrow>
      extractResultUrl (JObj pn) = Inl (InvalidOutputFormat (Some (JObj pn)))) \<and>
   extractResultUrl (JArr []) = Inl (InvalidOutputFormat (Some (JArr []))) \<and>
   extractResultUrl JNull = Inl (InvalidOutputFormat None) \<and>
   extractResultUrl (JBool b) = Inl (InvalidOutputFormat None) \<and>
   extractResultUrl (JNum n) = Inl (InvalidOutputFormat None) \<and>
   (required (imageUrl body) \<noteq> None \<and> required (color body) \<noteq> None \<and> extractResultUrl out = Inl e \<longrightarrow>
      fst (fst (professional_recolor env (\<lambda>call. Inr out) random body)) =
        Failed 500 ''Failed to change furniture color'' e)"
proof (intro conjI impI)
  show "extractResultUrl (JStr s) = Inr (JStr s)" by simp
  show "extractResultUrl (JArr (x # xs)) = Inr x" by simp
  show "extractResultUrl (JArr []) = Inl (InvalidOutputFormat (Some (JArr [])))"
    by (simp add: extractFromObject_def objectValues_def)
  show "extractResultUrl JNull = Inl (InvalidOutputFormat None)" by simp
  show "extractResultUrl (JBool b) = Inl (InvalidOutputFormat None)" by simp
  show "extractResultUrl (JNum n) = Inl (InvalidOutputFormat None)" by simp
next
  assume "map_of po ''output'' = Some (JStr so)"
  then show "extractResultUrl (JObj po) = Inr (JStr so)"
    by (simp add: extractFromObject_output)
next
  assume "(\<forall>s. map_of pu ''output'' \<noteq> Some (JStr s)) \<and> map_of pu ''url'' = Some (JStr su)"
  then show "extractResultUrl (JObj pu) = Inr (JStr su)"
    by (simp add: extractFromObject_url)
next
  assume a: "(\<forall>s. map_of ph ''output'' \<noteq> Some (JStr s)) \<and> (\<forall>s. map_of ph ''url'' \<noteq> Some (JStr s)) \<and>
    ph = before @ (k, JStr h) # after \<and> startsWith h ''http'' \<and>
    (\<forall>v\<in>set (objectValues before). \<not> isHttpString v)"
  then have "objectValues ph = objectValues before @ JStr h # objectValues after"
    by (simp add: objectValues_def)
  moreover have "isHttpString (JStr h)" using a by simp
  ultimately have "find isHttpString (objectValues ph) = Some (JStr h)"
    using a find_first [of "objectValues before" isHttpString "JStr h" "objectValues after"] by simp
  moreover have "extractFromObject (JObj ph) ph =
        (case find isHttpString (objectValues ph) of
           Some v \<Rightarrow> Inr v
         | None \<Rightarrow> Inl (InvalidOutputFormat (Some (JObj ph))))"
    using a by (intro extractFromObject_scan) blast+
  ultimately show "extractResultUrl (JObj ph) = Inr (JStr h)"
    by simp
next
  assume a: "(\<forall>s. map_of pn ''output'' \<noteq> Some (JStr s)) \<and> (\<forall>s. map_of pn ''url'' \<noteq> Some (JStr s)) \<and>
    (\<forall>v\<in>set (objectValues pn). \<not> isHttpString v)"
  then have "find isHttpString (objectValues pn) = None"
    by (simp add: find_none)
  moreover have "extractFromObject (JObj pn) pn =
        (case find isHttpString (objectValues pn) of
           Some v \<Rightarrow> Inr v
         | None \<Rightarrow> Inl (InvalidOutputFormat (Some (JObj pn))))"
    using a by (intro extractFromObject_scan) blast+
  ultimately show "extractResultUrl (JObj pn) = Inl (InvalidOutputFormat (Some (JObj pn)))"
    by simp
next
  assume a: "required (imageUrl body) \<noteq> None \<and> required (color body) \<noteq> None \<and> extractResultUrl out = Inl e"
  then obtain imgUrl col where "required (imageUrl body) = Some imgUrl" "required (color body) = Some col"
    by auto
  then show "fst (fst (professional_recolor env (\<lambda>call. Inr out) random body)) =
        Failed 500 ''Failed to change furniture color'' e"
    using a by (simp add: recolor_after_provider)
qed

theorem extractResultUrl_precedence_witness:
  "extractResultUrl (JStr ''http://x/img.png'') = Inr (JStr ''http://x/img.png'') \<and>
   extractResultUrl (JArr [JStr ''http://x/img.png'']) = Inr (JStr ''http://x/img.png'') \<and>
   extractResultUrl (JObj [(''output'', JStr ''http://x/img.png'')]) = Inr (JStr ''http://x/img.png'') \<and>
   extractResultUrl (JObj [(''output'', JNum 7), (''url'', JStr ''http://x/u.png'')]) = Inr (JStr ''http://x/u.png'') \<and>
   extractResultUrl (JObj [(''foo'', JNum 1), (''a'', JStr ''ftp://y''), (''b'', JStr ''https://y/1.png''),
       (''c'', JStr ''http://y/2.png'')]) = Inr (JStr ''https://y/1.png'') \<and>
   extractResultUrl (JObj [(''foo'', JNum 1)]) = Inl (InvalidOutputFormat (Some (JObj [(''foo'', JNum 1)]))) \<and>
   fst (fst (professional_recolor \<lparr>REPLIT_DEV_DOMAIN = None\<rparr> (\<lambda>call. Inr (JObj [(''foo'', JNum 1)])) (1 / 3)
     (empty_body\<lparr>imageUrl := Some ''http://x/a.png'', color := Some ''#FF0000''\<rparr>))) =
     Failed 500 ''Failed to change furniture color'' (InvalidOutputFormat (Some (JObj [(''foo'', JNum 1)])))"
  using extractResultUrl_precedence
    [where s = "''http://x/img.png''" and x = "JStr ''http://x/img.png''" and xs = "[]"
       and po = "[(''output'', JStr ''http://x/img.png'')]" and so = "''http://x/img.png''"
       and pu = "[(''output'', JNum 7), (''url'', JStr ''http://x/u.png'')]" and su = "''http://x/u.png''"
       and ph = "[(''foo'', JNum 1), (''a'', JStr ''ftp://y''), (''b'', JStr ''https://y/1.png''), (''c'', JStr ''http://y/2.png'')]"
       and before = "[(''foo'', JNum 1), (''a'', JStr ''ftp://y'')]" and k = "''b''" and h = "''https://y/1.png''"
       and after = "[(''c'', JStr ''http://y/2.png'')]"
       and pn = "[(''foo'', JNum 1)]"
       and body = "empty_body\<lparr>imageUrl := Some ''http://x/a.png'', color := Some ''#FF0000''\<rparr>"
       and out = "JObj [(''foo'', JNum 1)]" and e = "InvalidOutputFormat (Some (JObj [(''foo'', JNum 1)]))"
       and env = "\<lparr>REPLIT_DEV_DOMAIN = None\<rparr>" and random = "1 / 3" and b = True and n = 0]
  by (simp add: objectValues_def startsWith_def empty_body_def required_def extractFromObject_def)

text \<open>
  C1 as stated lets every response that matches no rule fail with an error that carries
  the raw payload. The response \<^verbatim>\<open>null\<close> matches no rule, and its error carries
  no payload.
\<close>

theorem extractResultUrl_null_without_payload:
  "extractResultUrl JNull = Inl (InvalidOutputFormat None) \<and>
   extractResultUrl JNull \<noteq> Inl (InvalidOutputFormat (Some JNull))"
  by simp

section \<open>Properties of the prompt generator\<close>

text \<open>
  A key that is neither a property of the table nor one of \<^verbatim>\<open>Object.prototype\<close>
  gets the fallback, and the colour lookup, which upper-cases its key, never meets an
  inherited property.
\<close>

lemma lookupOr_fallback:
  assumes "key \<notin> fst ` set table" and "key \<notin> fst ` set Object_prototype"
  shows "lookupOr table key fallback = fallback"
proof -
  have "map_of table key = None" and "map_of Object_prototype key = None"
    using assms by (simp_all add: map_of_eq_None_iff)
  then show ?thesis by (simp add: lookupOr_def)
qed

lemma generateInpaintingPrompt_generic:
  assumes "mat \<notin> fst ` set MATERIAL_TYPES" and "mat \<notin> fst ` set Object_prototype"
    and "part \<notin> fst ` set FURNITURE_PARTS" and "part \<notin> fst ` set Object_prototype"
  shows "generateInpaintingPrompt part mat col =
     ''Photorealistic premium material on furniture part, '' @ col @
     '', high-end textile weave, professional product photography, 8k resolution, maintaining original lighting and shadows, seamless material transition, no color bleeding, precise edges''"
  using assms by (simp add: generateInpaintingPrompt_def lookupOr_fallback)

lemma upper_not_lower:
  "list_all (\<lambda>u. u \<notin> set ''abcdefghijklmnopqrstuvwxyz'') ''ABCDEFGHIJKLMNOPQRSTUVWXYZ''"
  by code_simp

lemma toUpperChar_not_lower: "toUpperChar c \<notin> set ''abcdefghijklmnopqrstuvwxyz''"
proof (cases "map_of (zip ''abcdefghijklmnopqrstuvwxyz'' ''ABCDEFGHIJKLMNOPQRSTUVWXYZ'') c")
  case None
  then have "c \<notin> fst ` set (zip ''abcdefghijklmnopqrstuvwxyz'' ''ABCDEFGHIJKLMNOPQRSTUVWXYZ'')"
    by (metis map_of_eq_None_iff)
  moreover have "fst ` set (zip ''abcdefghijklmnopqrstuvwxyz'' ''ABCDEFGHIJKLMNOPQRSTUVWXYZ'') =
      set ''abcdefghijklmnopqrstuvwxyz''"
    by (simp only: set_map [symmetric] map_fst_zip length_Cons list.size)
  ultimately have "c \<notin> set ''abcdefghijklmnopqrstuvwxyz''"
    by blast
  moreover have "toUpperChar c = c"
    using None by (simp only: toUpperChar_def option.case)
  ultimately show ?thesis
    by metis
next
  case (Some u)
  then have "u \<in> set ''ABCDEFGHIJKLMNOPQRSTUVWXYZ''"
    by (meson map_of_SomeD set_zip_rightD)
  then have "u \<notin> set ''abcdefghijklmnopqrstuvwxyz''"
    using upper_not_lower unfolding list_all_iff by blast
  moreover have "toUpperChar c = u"
    using Some by (simp only: toUpperChar_def option.case)
  ultimately show ?thesis
    by metis
qed

lemma inherited_keys_have_lower:
  "list_all (list_ex (\<lambda>c. c \<in> set ''abcdefghijklmnopqrstuvwxyz'')) (map fst Object_prototype)"
  by code_simp

lemma Object_prototype_key_has_lower:
  "key \<in> fst ` set Object_prototype \<Longrightarrow> \<exists>c\<in>set key. c \<in> set ''abcdefghijklmnopqrstuvwxyz''"
proof -
  assume "key \<in> fst ` set Object_prototype"
  moreover have "\<forall>k\<in>set (map fst Object_prototype).
      list_ex (\<lambda>c. c \<in> set ''abcdefghijklmnopqrstuvwxyz'') k"
    using inherited_keys_have_lower by (simp only: list_all_iff)
  ultimately have "list_ex (\<lambda>c. c \<in> set ''abcdefghijklmnopqrstuvwxyz'') key"
    by (simp only: set_map)
  then show ?thesis
    by (simp only: list_ex_iff)
qed

lemma toUpperCase_not_inherited: "toUpperCase hex \<notin> fst ` set Object_prototype"
proof
  assume "toUpperCase hex \<in> fst ` set Object_prototype"
  then obtain c where "c \<in> set (toUpperCase hex)" and low: "c \<in> set ''abcdefghijklmnopqrstuvwxyz''"
    using Object_prototype_key_has_lower by blast
  then obtain d where "c = toUpperChar d"
    by (auto simp add: toUpperCase_def)
  with low show False
    using toUpperChar_not_lower [of d] by simp
qed

lemma getColorName_outside_table:
  assumes "toUpperCase hex \<notin> fst ` set colorMap"
  shows "getColorName hex = ''color '' @ hex"
  using assms by (simp add: getColorName_def lookupOr_fallback toUpperCase_not_inherited)

lemma generateInpaintingPrompt_example:
  "generateInpaintingPrompt ''cushion'' ''leather'' ''red'' =
     ''Photorealistic premium leather texture on sofa cushion, red, high-end textile weave, professional product photography, 8k resolution, maintaining original lighting and shadows, seamless material transition, no color bleeding, precise edges''"
  by (simp add: generateInpaintingPrompt_def lookupOr_def MATERIAL_TYPES_def FURNITURE_PARTS_def)

lemma getColorName_examples:
  "getColorName ''#ff0000'' = ''red''" "getColorName ''#12345a'' = ''color #12345a''"
  by (simp_all add: getColorName_def lookupOr_def colorMap_def toUpperCase_def toUpperChar_def Object_prototype_def)

text \<open>
  C5. The prompt generator is meant to use the generic phrase \<^verbatim>\<open>premium material\<close>
  for every material outside the enumerated set and \<^verbatim>\<open>furniture part\<close> for every
  part outside it. The material \<^verbatim>\<open>constructor\<close> and the part
  \<^verbatim>\<open>toString\<close> are outside the sets, yet the prompt is built from the text of the
  built-in function that the table inherits under that name, not from the generic phrase.
\<close>

theorem generateInpaintingPrompt_inherited_key:
  "generateInpaintingPrompt ''cushion'' ''constructor'' ''red'' =
     ''Photorealistic function Object() { [native code] } on sofa cushion, red, high-end textile weave, professional product photography, 8k resolution, maintaining original lighting and shadows, seamless material transition, no color bleeding, precise edges'' \<and>
   ''constructor'' \<notin> fst ` set MATERIAL_TYPES \<and>
   generateInpaintingPrompt ''toString'' ''leather'' ''red'' =
     ''Photorealistic premium leather texture on function toString() { [native code] }, red, high-end textile weave, professional product photography, 8k resolution, maintaining original lighting and shadows, seamless material transition, no color bleeding, precise edges'' \<and>
   ''toString'' \<notin> fst ` set FURNITURE_PARTS"
  by (simp add: generateInpaintingPrompt_def lookupOr_def MATERIAL_TYPES_def FURNITURE_PARTS_def
      Object_prototype_def)

section \<open>Properties of the returned result URL\<close>

text \<open>
  Whenever POST /api/professional-recolor answers with status 200, the
  \<^verbatim>\<open>resultUrl\<close> of the body is a non-empty string that begins with
  \<^verbatim>\<open>http\<close>.
\<close>

lemma validateResultUrl_Inr:
  "validateResultUrl v = Inr u \<Longrightarrow> v = JStr u \<and> u \<noteq> [] \<and> startsWith u ''http''"
  by (cases v) (simp_all split: if_splits)

lemma professional_recolor_resultUrl:
  assumes "fst (fst (professional_recolor env provider random body)) = Json 200 (JObj kvs)"
  shows "\<exists>u. map_of kvs ''resultUrl'' = Some (JStr u) \<and> u \<noteq> [] \<and> startsWith u ''http''"
proof -
  obtain imgUrl col where req: "required (imageUrl body) = Some imgUrl" "required (color body) = Some col"
    using assms by (auto simp add: professional_recolor_def split: option.splits)
  define call where "call = Run ''stability-ai/sdxl''
      (sdxl_input (recolor_prompt (getColorName col) (withDefault ''fabric'' (material body))
         (withDefault ''cushion'' (furniturePart body))) random)"
  obtain out where out: "provider call = Inr out"
    using assms req by (cases "provider call") (auto simp add: professional_recolor_def call_def Let_def)
  obtain extracted where ex: "extractResultUrl out = Inr extracted"
    using assms req out
    by (cases "extractResultUrl out") (auto simp add: professional_recolor_def call_def Let_def)
  obtain u where u: "validateResultUrl extracted = Inr u"
    using assms req out ex
    by (cases "validateResultUrl extracted") (auto simp add: professional_recolor_def call_def Let_def)
  have "map_of kvs ''resultUrl'' = Some (JStr u)"
    using assms req out ex u by (auto simp add: professional_recolor_def call_def Let_def)
  with validateResultUrl_Inr [OF u] show ?thesis by blast
qed

text \<open>
  C2. Both provider-calling handlers are meant to return a \<^verbatim>\<open>resultUrl\<close> that is
  a non-empty string beginning with \<^verbatim>\<open>http\<close>, and to fail otherwise. POST
  /api/inpaint-professional has no such check: when the provider answers with the string
  \<^verbatim>\<open>result.png\<close>, or with the empty string, the handler answers 200 with
  that string as \<^verbatim>\<open>resultUrl\<close>.
\<close>

theorem inpaint_professional_unvalidated_resultUrl:
  "fst (inpaint_professional (\<lambda>call. Inr (JStr ''result.png'')) (1 / 3)
         (empty_body\<lparr>imageUrl := Some ''http://x/a.png'', maskUrl := Some ''http://x/m.png'',
            color := Some ''#FF0000''\<rparr>)) =
     Json 200 (JObj
       [(''resultUrl'', JStr ''result.png''),
        (''prompt'', JStr (generateInpaintingPrompt ''cushion'' ''fabric'' ''red'')),
        (''settings'', JObj
           [(''promptStrength'', JNum (1 / 2)),
            (''maskBlur'', JNum 0),
            (''material'', JStr ''fabric''),
            (''furniturePart'', JStr ''cushion''),
            (''color'', JStr ''red'')])]) \<and>
   \<not> startsWith ''result.png'' ''http'' \<and>
   fst (inpaint_professional (\<lambda>call. Inr (JStr [])) (1 / 3)
         (empty_body\<lparr>imageUrl := Some ''http://x/a.png'', maskUrl := Some ''http://x/m.png'',
            color := Some ''#FF0000''\<rparr>)) =
     Json 200 (JObj
       [(''resultUrl'', JStr []),
        (''prompt'', JStr (generateInpaintingPrompt ''cushion'' ''fabric'' ''red'')),
        (''settings'', JObj
           [(''promptStrength'', JNum (1 / 2)),
            (''maskBlur'', JNum 0),
            (''material'', JStr ''fabric''),
            (''furniturePart'', JStr ''cushion''),
            (''color'', JStr ''red'')])])"
  by (simp add: inpaint_professional_def inpaintResultUrl_def empty_body_def required_def Let_def
      withDefault_def startsWith_def getColorName_def lookupOr_def colorMap_def toUpperCase_def
      toUpperChar_def)

section \<open>Properties of the ledger\<close>

text \<open>The tables after the delete are the old tables without the rows of the project.\<close>

lemma dead_image_iff:
  "x \<in> set (map image_id (filter (\<lambda>i. image_project_id i = pid) (project_images db))) \<longleftrightarrow>
   (\<exists>i\<in>set (project_images db). image_id i = x \<and> image_project_id i = pid)"
  by auto

lemma dead_mask_iff:
  "x \<in> set (map mask_id (filter (\<lambda>m. mask_image_id m \<in>
       set (map image_id (filter (\<lambda>i. image_project_id i = pid) (project_images db))))
       (segmentation_masks db))) \<longleftrightarrow>
   mask_id_of_project db pid x"
  unfolding mask_id_of_project_def mask_of_project_def dead_image_iff by auto

lemma delete_project_projects:
  "projects (delete_project pid db) = filter (\<lambda>p. project_id p \<noteq> pid) (projects db)"
  by (simp add: delete_project_def Let_def)

lemma delete_project_images:
  "project_images (delete_project pid db) = filter (\<lambda>i. image_project_id i \<noteq> pid) (project_images db)"
  by (simp add: delete_project_def Let_def)

lemma delete_project_masks:
  "segmentation_masks (delete_project pid db) =
     filter (\<lambda>m. \<not> mask_of_project db pid m) (segmentation_masks db)"
  unfolding mask_of_project_def dead_image_iff [symmetric]
  by (simp add: delete_project_def Let_def)

lemma delete_project_colors:
  "color_applications (delete_project pid db) =
     filter (\<lambda>c. color_project_id c \<noteq> pid \<and> \<not> mask_id_of_project db pid (color_mask_id c))
       (color_applications db)"
  unfolding dead_mask_iff [symmetric]
  by (simp add: delete_project_def Let_def)

lemma delete_project_results:
  "professional_results (delete_project pid db) =
     filter (\<lambda>r. result_project_id r \<noteq> pid \<and> \<not> mask_id_of_project db pid (result_mask_id r))
       (professional_results db)"
  unfolding dead_mask_iff [symmetric]
  by (simp add: delete_project_def Let_def)

lemma delete_project_recent:
  "recent_colors (delete_project pid db) =
     filter (\<lambda>r. recent_project_id r \<noteq> Some pid) (recent_colors db)"
  by (simp add: delete_project_def Let_def)

lemma delete_project_canvas:
  "canvas_states (delete_project pid db) =
     filter (\<lambda>s. canvas_project_id s \<noteq> pid) (canvas_states db)"
  by (simp add: delete_project_def Let_def)

text \<open>A surviving mask keeps its image, because the image was not one of the project's.\<close>

lemma surviving_mask_has_image:
  assumes "m \<in> set (segmentation_masks db)" and "\<not> mask_of_project db pid m"
    and "mask_image_id m \<in> set (map image_id (project_images db))"
  shows "mask_image_id m \<in> set (map image_id (project_images (delete_project pid db)))"
proof -
  obtain i where i: "i \<in> set (project_images db)" "image_id i = mask_image_id m"
    using assms(3) by auto
  then have "image_project_id i \<noteq> pid"
    using assms(2) by (auto simp add: mask_of_project_def)
  with i show ?thesis
    by (force simp add: delete_project_images)
qed

lemma surviving_mask_id:
  assumes "mid \<in> set (map mask_id (segmentation_masks db))" and "\<not> mask_id_of_project db pid mid"
  shows "mid \<in> set (map mask_id (segmentation_masks (delete_project pid db)))"
proof -
  obtain m where m: "m \<in> set (segmentation_masks db)" "mask_id m = mid"
    using assms(1) by auto
  then have "\<not> mask_of_project db pid m"
    using assms(2) by (auto simp add: mask_id_of_project_def)
  with m show ?thesis
    by (force simp add: delete_project_masks)
qed

lemma surviving_project_id:
  assumes "p \<in> set (map project_id (projects db))" and "p \<noteq> pid"
  shows "p \<in> set (map project_id (projects (delete_project pid db)))"
  using assms by (auto simp add: delete_project_projects)

lemma delete_project_keeps_integrity:
  assumes "referential_integrity db"
  shows "referential_integrity (delete_project pid db)"
proof -
  let ?db = "delete_project pid db"
  have images: "\<forall>i\<in>set (project_images ?db). image_project_id i \<in> set (map project_id (projects ?db))"
  proof
    fix i assume "i \<in> set (project_images ?db)"
    then have "i \<in> set (project_images db)" and "image_project_id i \<noteq> pid"
      by (simp_all add: delete_project_images)
    moreover from this assms have "image_project_id i \<in> set (map project_id (projects db))"
      by (simp add: referential_integrity_def)
    ultimately show "image_project_id i \<in> set (map project_id (projects ?db))"
      by (blast intro: surviving_project_id)
  qed
  have masks: "\<forall>m\<in>set (segmentation_masks ?db). mask_image_id m \<in> set (map image_id (project_images ?db))"
  proof
    fix m assume "m \<in> set (segmentation_masks ?db)"
    then have "m \<in> set (segmentation_masks db)" and "\<not> mask_of_project db pid m"
      by (simp_all add: delete_project_masks)
    moreover from this assms have "mask_image_id m \<in> set (map image_id (project_images db))"
      by (simp add: referential_integrity_def)
    ultimately show "mask_image_id m \<in> set (map image_id (project_images ?db))"
      by (blast intro: surviving_mask_has_image)
  qed
  have colors: "\<forall>c\<in>set (color_applications ?db).
      color_project_id c \<in> set (map project_id (projects ?db)) \<and>
      color_mask_id c \<in> set (map mask_id (segmentation_masks ?db))"
  proof
    fix c assume "c \<in> set (color_applications ?db)"
    then have c: "c \<in> set (color_applications db)" "color_project_id c \<noteq> pid"
        "\<not> mask_id_of_project db pid (color_mask_id c)"
      by (simp_all add: delete_project_colors)
    with assms have "color_project_id c \<in> set (map project_id (projects db))"
        and "color_mask_id c \<in> set (map mask_id (segmentation_masks db))"
      by (simp_all add: referential_integrity_def)
    with c show "color_project_id c \<in> set (map project_id (projects ?db)) \<and>
      color_mask_id c \<in> set (map mask_id (segmentation_masks ?db))"
      by (blast intro: surviving_project_id surviving_mask_id)
  qed
  have results: "\<forall>r\<in>set (professional_results ?db).
      result_project_id r \<in> set (map project_id (projects ?db)) \<and>
      result_mask_id r \<in> set (map mask_id (segmentation_masks ?db))"
  proof
    fix r assume "r \<in> set (professional_results ?db)"
    then have r: "r \<in> set (professional_results db)" "result_project_id r \<noteq> pid"
        "\<not> mask_id_of_project db pid (result_mask_id r)"
      by (simp_all add: delete_project_results)
    with assms have "result_project_id r \<in> set (map project_id (projects db))"
        and "result_mask_id r \<in> set (map mask_id (segmentation_masks db))"
      by (simp_all add: referential_integrity_def)
    with r show "result_project_id r \<in> set (map project_id (projects ?db)) \<and>
      result_mask_id r \<in> set (map mask_id (segmentation_masks ?db))"
      by (blast intro: surviving_project_id surviving_mask_id)
  qed
  have recent: "\<forall>r\<in>set (recent_colors ?db).
      recent_project_id r = None \<or>
      recent_project_id r \<in> set (map (\<lambda>p. Some (project_id p)) (projects ?db))"
  proof
    fix r assume "r \<in> set (recent_colors ?db)"
    then have r: "r \<in> set (recent_colors db)" "recent_project_id r \<noteq> Some pid"
      by (simp_all add: delete_project_recent)
    with assms have "recent_project_id r = None \<or>
        recent_project_id r \<in> set (map (\<lambda>p. Some (project_id p)) (projects db))"
      by (simp add: referential_integrity_def)
    with r show "recent_project_id r = None \<or>
      recent_project_id r \<in> set (map (\<lambda>p. Some (project_id p)) (projects ?db))"
      by (auto simp add: delete_project_projects)
  qed
  have canvas: "\<forall>s\<in>set (canvas_states ?db). canvas_project_id s \<in> set (map project_id (projects ?db))"
  proof
    fix s assume "s \<in> set (canvas_states ?db)"
    then have "s \<in> set (canvas_states db)" and "canvas_project_id s \<noteq> pid"
      by (simp_all add: delete_project_canvas)
    moreover from this assms have "canvas_project_id s \<in> set (map project_id (projects db))"
      by (simp add: referential_integrity_def)
    ultimately show "canvas_project_id s \<in> set (map project_id (projects ?db))"
      by (blast intro: surviving_project_id)
  qed
  from images masks colors results recent canvas show ?thesis
    unfolding referential_integrity_def by blast
qed

lemma get_project_missing:
  assumes "pid \<notin> set (map project_id (projects db))"
  shows "get_project pid db = Message 404 ''Project not found''"
proof -
  have "filter (\<lambda>p. project_id p = pid) (projects db) = []"
    using assms by (auto simp add: filter_empty_conv)
  then show ?thesis by (simp add: get_project_def)
qed

lemma example_database_integrity: "referential_integrity example_database"
  by (simp add: referential_integrity_def example_database_def)

lemma example_database_deleted:
  "delete_project ''p1'' example_database =
     \<lparr>projects =
        [\<lparr>project_id = ''p2'', project_name = ''Chair'', project_description = None,
          project_preview_image_url = None, project_created_at = 2, project_updated_at = 2\<rparr>],
      project_images = [\<lparr>image_id = ''i2'', image_project_id = ''p2'', image_cols = JNull\<rparr>],
      segmentation_masks = [\<lparr>mask_id = ''m2'', mask_image_id = ''i2'', mask_cols = JNull\<rparr>],
      color_applications =
        [\<lparr>color_id = ''c2'', color_project_id = ''p2'', color_mask_id = ''m2'', color_cols = JNull\<rparr>],
      professional_results =
        [\<lparr>result_id = ''r2'', result_project_id = ''p2'', result_mask_id = ''m2'', result_cols = JNull\<rparr>],
      recent_colors = [\<lparr>recent_id = ''h2'', recent_project_id = None, recent_cols = JNull\<rparr>],
      canvas_states = [\<lparr>canvas_id = ''s2'', canvas_project_id = ''p2'', canvas_cols = JNull\<rparr>]\<rparr>"
  by (simp add: delete_project_def example_database_def)

text \<open>
  C7. After DELETE /api/projects/:id the project is gone and so is every image of it,
  every mask of one of its images, every color application and professional result that
  referred to the project or to one of those masks, and its canvas state. If every
  dependent row referred to an existing parent before the delete, so it does after it. A
  GET /api/projects/:id for the deleted id is answered with 404.
\<close>

theorem delete_project_cascade:
  "pid \<notin> set (map project_id (projects (delete_project pid db))) \<and>
   (\<forall>i\<in>set (project_images (delete_project pid db)). image_project_id i \<noteq> pid) \<and>
   (\<forall>m\<in>set (segmentation_masks (delete_project pid db)). \<not> mask_of_project db pid m) \<and>
   (\<forall>c\<in>set (color_applications (delete_project pid db)).
      color_project_id c \<noteq> pid \<and> \<not> mask_id_of_project db pid (color_mask_id c)) \<and>
   (\<forall>r\<in>set (professional_results (delete_project pid db)).
      result_project_id r \<noteq> pid \<and> \<not> mask_id_of_project db pid (result_mask_id r)) \<and>
   (\<forall>s\<in>set (canvas_states (delete_project pid db)). canvas_project_id s \<noteq> pid) \<and>
   (referential_integrity db \<longrightarrow> referential_integrity (delete_project pid db)) \<and>
   snd (delete_project_route pid db) = delete_project pid db \<and>
   get_project pid (snd (delete_project_route pid db)) = Message 404 ''Project not found''"
proof (intro conjI)
  show gone: "pid \<notin> set (map project_id (projects (delete_project pid db)))"
    by (auto simp add: delete_project_projects)
  show "\<forall>i\<in>set (project_images (delete_project pid db)). image_project_id i \<noteq> pid"
    by (simp add: delete_project_images)
  show "\<forall>m\<in>set (segmentation_masks (delete_project pid db)). \<not> mask_of_project db pid m"
    by (simp add: delete_project_masks)
  show "\<forall>c\<in>set (color_applications (delete_project pid db)).
      color_project_id c \<noteq> pid \<and> \<not> mask_id_of_project db pid (color_mask_id c)"
    by (simp add: delete_project_colors)
  show "\<forall>r\<in>set (professional_results (delete_project pid db)).
      result_project_id r \<noteq> pid \<and> \<not> mask_id_of_project db pid (result_mask_id r)"
    by (simp add: delete_project_results)
  show "\<forall>s\<in>set (canvas_states (delete_project pid db)). canvas_project_id s \<noteq> pid"
    by (simp add: delete_project_canvas)
  show "referential_integrity db \<longrightarrow> referential_integrity (delete_project pid db)"
    by (simp add: delete_project_keeps_integrity)
  show route: "snd (delete_project_route pid db) = delete_project pid db"
    by (simp add: delete_project_route_def)
  show "get_project pid (snd (delete_project_route pid db)) = Message 404 ''Project not found''"
    unfolding route using gone by (rule get_project_missing)
qed

theorem delete_project_cascade_witness:
  "referential_integrity example_database \<and>
   referential_integrity (delete_project ''p1'' example_database) \<and>
   ''p1'' \<notin> set (map project_id (projects (delete_project ''p1'' example_database))) \<and>
   map image_id (project_images (delete_project ''p1'' example_database)) = [''i2''] \<and>
   map mask_id (segmentation_masks (delete_project ''p1'' example_database)) = [''m2''] \<and>
   map color_id (color_applications (delete_project ''p1'' example_database)) = [''c2''] \<and>
   map result_id (professional_results (delete_project ''p1'' example_database)) = [''r2''] \<and>
   map canvas_id (canvas_states (delete_project ''p1'' example_database)) = [''s2''] \<and>
   get_project ''p1'' (snd (delete_project_route ''p1'' example_database)) = Message 404 ''Project not found''"
  using delete_project_cascade [of "''p1''" example_database] example_database_integrity
  by (simp add: example_database_deleted get_project_def)

text \<open>
  GET (lemma \<open>get_project_missing\<close>) and PUT with a body the schema accepts answer 404 for
  an id without a row; PUT with a body the schema refuses answers 400 before it looks
  for the row. DELETE answers 200 whatever the table holds.
\<close>

lemma put_project_missing:
  assumes "pid \<notin> set (map project_id (projects db))" and "parse body = Some validated"
  shows "put_project parse setCols now pid body db = (Message 404 ''Project not found'', db)"
proof -
  have none: "filter (\<lambda>p. project_id p = pid) (projects db) = []"
    using assms(1) by (auto simp add: filter_empty_conv)
  have "map (\<lambda>p. if project_id p = pid then (setCols validated p)\<lparr>project_updated_at := now\<rparr> else p)
          (projects db) = projects db"
    using assms(1) by (intro map_idI) auto
  with none assms(2) show ?thesis
    by (simp add: put_project_def)
qed

lemma put_project_invalid:
  "parse body = None \<Longrightarrow> put_project parse setCols now pid body db = (Message 400 ''Invalid project data'', db)"
  by (simp add: put_project_def)

lemma delete_project_route_reply:
  "fst (delete_project_route pid db) = Message 200 ''Project deleted successfully''"
  by (simp add: delete_project_route_def)

text \<open>
  C8. Every ledger operation addressed at a project id without a row is meant to answer 404.
  No project of the example database has the id \<^verbatim>\<open>p9\<close>: GET answers 404 for it,
  but DELETE answers 200 with the message of a successful delete and leaves the database
  as it was.
\<close>

theorem delete_project_route_missing_id:
  "''p9'' \<notin> set (map project_id (projects example_database)) \<and>
   get_project ''p9'' example_database = Message 404 ''Project not found'' \<and>
   delete_project_route ''p9'' example_database =
     (Message 200 ''Project deleted successfully'', example_database)"
  by (simp add: delete_project_route_def delete_project_def get_project_def example_database_def)

section \<open>Properties of the provider calls\<close>

text \<open>A request that passes the validation makes exactly one provider call.\<close>

lemma professional_recolor_calls:
  assumes "required (imageUrl body) = Some imgUrl" and "required (color body) = Some col"
  shows "snd (fst (professional_recolor env provider random body)) =
     [Run ''stability-ai/sdxl''
        (sdxl_input (recolor_prompt (getColorName col) (withDefault ''fabric'' (material body))
           (withDefault ''cushion'' (furniturePart body))) random)]"
  using assms by (simp add: professional_recolor_def Let_def split: sum.splits)

lemma inpaint_professional_calls:
  assumes "required (imageUrl body) = Some imgUrl" and "required (maskUrl body) = Some mskUrl"
    and "required (color body) = Some col"
  shows "snd (inpaint_professional provider random body) =
     [Run ''black-forest-labs/flux-fill-pro''
        (flux_fill_input imgUrl mskUrl
           (generateInpaintingPrompt (withDefault ''cushion'' (furniturePart body))
              (withDefault ''fabric'' (material body)) (getColorName col))
           (withDefault (1 / 2) (promptStrength body)) (withDefault 0 (maskBlur body)) random)]"
  using assms by (simp add: inpaint_professional_def Let_def split: sum.splits)

lemma seedOf_eq_iff: "seedOf r1 = seedOf r2 \<longleftrightarrow> \<lfloor>r1 * 1000000\<rfloor> = \<lfloor>r2 * 1000000\<rfloor>"
  by (simp add: seedOf_def)

lemma sdxl_input_seed: "sdxl_input p r1 = sdxl_input p r2 \<longleftrightarrow> \<lfloor>r1 * 1000000\<rfloor> = \<lfloor>r2 * 1000000\<rfloor>"
  by (simp add: sdxl_input_def seedOf_eq_iff)

lemma flux_fill_input_seed:
  "flux_fill_input i m p s b r1 = flux_fill_input i m p s b r2 \<longleftrightarrow> \<lfloor>r1 * 1000000\<rfloor> = \<lfloor>r2 * 1000000\<rfloor>"
  by (simp add: flux_fill_input_def seedOf_eq_iff)

lemma two_draws:
  "(0::rat) \<le> 0 \<and> (0::rat) < 1 \<and> (0::rat) \<le> 1 / 2 \<and> (1 / 2 ::rat) < 1 \<and>
   \<lfloor>(0::rat) * 1000000\<rfloor> \<noteq> \<lfloor>(1 / 2 ::rat) * 1000000\<rfloor>"
  by simp

lemma professional_recolor_finalUrl:
  assumes "required (imageUrl body) = Some imgUrl" and "required (color body) = Some col"
  shows "snd (professional_recolor env provider random body) = Some (processImageUrl env imgUrl)"
  using assms by (simp add: professional_recolor_def Let_def split: sum.splits)

lemma professional_recolor_maskUrl:
  assumes "required (imageUrl body) = Some imgUrl"
    and "fst (fst (professional_recolor env provider random body)) = Json 200 (JObj kvs)"
  shows "map_of kvs ''maskUrl'' = Some (JStr imgUrl)"
  using assms by (auto simp add: professional_recolor_def Let_def split: sum.splits option.splits)

lemma processImageUrl_example:
  "processImageUrl \<lparr>REPLIT_DEV_DOMAIN = Some ''d.example''\<rparr> ''/uploads/a.png'' = ''https://d.example/uploads/a.png''"
  "processImageUrl \<lparr>REPLIT_DEV_DOMAIN = Some ''d.example''\<rparr> ''http://localhost:5000/uploads/a.png'' =
     ''https://d.example/uploads/a.png''"
  "processImageUrl \<lparr>REPLIT_DEV_DOMAIN = None\<rparr> ''http://localhost:5000/uploads/a.png'' =
     ''http://localhost:5000/uploads/a.png''"
  by (simp_all add: processImageUrl_def required_def startsWith_def isDigit_def)

text \<open>
  C9. For every request that reaches the model call, the input sent to the provider is not
  determined by the request body: two runs of the same request whose draws of
  \<^verbatim>\<open>Math.random()\<close> give different seeds send different inputs, and such draws
  exist in the range of \<^verbatim>\<open>Math.random()\<close>. This holds for POST
  /api/professional-recolor and for POST /api/inpaint-professional.
\<close>

theorem provider_input_depends_on_random_seed:
  "(required (imageUrl body) \<noteq> None \<and> required (color body) \<noteq> None \<longrightarrow>
      (\<forall>r1 r2. \<lfloor>r1 * 1000000\<rfloor> \<noteq> \<lfloor>r2 * 1000000\<rfloor> \<longrightarrow>
         snd (fst (professional_recolor env provider r1 body)) \<noteq>
         snd (fst (professional_recolor env provider r2 body))) \<and>
      (\<exists>r1 r2. 0 \<le> r1 \<and> r1 < 1 \<and> 0 \<le> r2 \<and> r2 < 1 \<and>
         snd (fst (professional_recolor env provider r1 body)) \<noteq>
         snd (fst (professional_recolor env provider r2 body)))) \<and>
   (required (imageUrl body') \<noteq> None \<and> required (maskUrl body') \<noteq> None \<and> required (color body') \<noteq> None \<longrightarrow>
      (\<forall>r1 r2. \<lfloor>r1 * 1000000\<rfloor> \<noteq> \<lfloor>r2 * 1000000\<rfloor> \<longrightarrow>
         snd (inpaint_professional provider' r1 body') \<noteq> snd (inpaint_professional provider' r2 body')) \<and>
      (\<exists>r1 r2. 0 \<le> r1 \<and> r1 < 1 \<and> 0 \<le> r2 \<and> r2 < 1 \<and>
         snd (inpaint_professional provider' r1 body') \<noteq> snd (inpaint_professional provider' r2 body')))"
proof (intro conjI impI)
  assume "required (imageUrl body) \<noteq> None \<and> required (color body) \<noteq> None"
  then obtain imgUrl col where req: "required (imageUrl body) = Some imgUrl" "required (color body) = Some col"
    by auto
  show differ: "\<forall>r1 r2. \<lfloor>r1 * 1000000\<rfloor> \<noteq> \<lfloor>r2 * 1000000\<rfloor> \<longrightarrow>
         snd (fst (professional_recolor env provider r1 body)) \<noteq>
         snd (fst (professional_recolor env provider r2 body))"
    by (simp add: professional_recolor_calls [OF req] sdxl_input_seed)
  show "\<exists>r1 r2. 0 \<le> r1 \<and> r1 < 1 \<and> 0 \<le> r2 \<and> r2 < 1 \<and>
         snd (fst (professional_recolor env provider r1 body)) \<noteq>
         snd (fst (professional_recolor env provider r2 body))"
    using differ two_draws by blast
next
  assume "required (imageUrl body') \<noteq> None \<and> required (maskUrl body') \<noteq> None \<and> required (color body') \<noteq> None"
  then obtain imgUrl mskUrl col where req: "required (imageUrl body') = Some imgUrl"
      "required (maskUrl body') = Some mskUrl" "required (color body') = Some col"
    by auto
  show differ: "\<forall>r1 r2. \<lfloor>r1 * 1000000\<rfloor> \<noteq> \<lfloor>r2 * 1000000\<rfloor> \<longrightarrow>
         snd (inpaint_professional provider' r1 body') \<noteq> snd (inpaint_professional provider' r2 body')"
    by (simp add: inpaint_professional_calls [OF req] flux_fill_input_seed)
  show "\<exists>r1 r2. 0 \<le> r1 \<and> r1 < 1 \<and> 0 \<le> r2 \<and> r2 < 1 \<and>
         snd (inpaint_professional provider' r1 body') \<noteq> snd (inpaint_professional provider' r2 body')"
    using differ two_draws by blast
qed

theorem provider_input_depends_on_random_seed_witness:
  "snd (fst (professional_recolor \<lparr>REPLIT_DEV_DOMAIN = None\<rparr> (\<lambda>call. Inr (JArr [JStr ''http://result/b.png'']))
      0 (empty_body\<lparr>imageUrl := Some ''http://x/a.png'', color := Some ''#FF0000''\<rparr>))) \<noteq>
   snd (fst (professional_recolor \<lparr>REPLIT_DEV_DOMAIN = None\<rparr> (\<lambda>call. Inr (JArr [JStr ''http://result/b.png'']))
      (1 / 2) (empty_body\<lparr>imageUrl := Some ''http://x/a.png'', color := Some ''#FF0000''\<rparr>))) \<and>
   snd (inpaint_professional (\<lambda>call. Inr (JArr [JStr ''http://result/b.png'']))
      0 (empty_body\<lparr>imageUrl := Some ''http://x/a.png'', maskUrl := Some ''http://x/m.png'',
           color := Some ''#FF0000''\<rparr>)) \<noteq>
   snd (inpaint_professional (\<lambda>call. Inr (JArr [JStr ''http://result/b.png'']))
      (1 / 2) (empty_body\<lparr>imageUrl := Some ''http://x/a.png'', maskUrl := Some ''http://x/m.png'',
           color := Some ''#FF0000''\<rparr>))"
proof -
  let ?b = "empty_body\<lparr>imageUrl := Some ''http://x/a.png'', color := Some ''#FF0000''\<rparr>"
  let ?b' = "empty_body\<lparr>imageUrl := Some ''http://x/a.png'', maskUrl := Some ''http://x/m.png'',
           color := Some ''#FF0000''\<rparr>"
  have valid: "required (imageUrl ?b) \<noteq> None \<and> required (color ?b) \<noteq> None"
    and valid': "required (imageUrl ?b') \<noteq> None \<and> required (maskUrl ?b') \<noteq> None \<and> required (color ?b') \<noteq> None"
    by (simp_all add: empty_body_def required_def)
  have seeds: "\<lfloor>(0::rat) * 1000000\<rfloor> \<noteq> \<lfloor>(1 / 2 ::rat) * 1000000\<rfloor>"
    by simp
  from provider_input_depends_on_random_seed
    [where body = ?b and body' = ?b' and env = "\<lparr>REPLIT_DEV_DOMAIN = None\<rparr>"
       and provider = "\<lambda>call. Inr (JArr [JStr ''http://result/b.png''])"
       and provider' = "\<lambda>call. Inr (JArr [JStr ''http://result/b.png''])"]
    valid valid' seeds
  show ?thesis by blast
qed

text \<open>
  C10. The input POST /api/professional-recolor sends to the provider has the fields
  \<^verbatim>\<open>prompt\<close>, \<^verbatim>\<open>negative_prompt\<close>, \<^verbatim>\<open>num_outputs\<close>,
  \<^verbatim>\<open>scheduler\<close>, \<^verbatim>\<open>num_inference_steps\<close>, \<^verbatim>\<open>guidance_scale\<close>
  and \<^verbatim>\<open>seed\<close> and no image field. Two requests that differ only in their
  (present, that is non-empty) \<^verbatim>\<open>imageUrl\<close> send the same input but for the seed.
  The rewritten image URL is computed and goes nowhere but the log, and the
  \<^verbatim>\<open>maskUrl\<close> of a 200 reply is the \<^verbatim>\<open>imageUrl\<close> of the request.
\<close>

theorem recolor_provider_input_has_no_image:
  "imageUrl body = Some url1 \<and> url1 \<noteq> [] \<and> url2 \<noteq> [] \<and> color body = Some col \<and> col \<noteq> [] \<longrightarrow>
     snd (fst (professional_recolor env provider r1 body)) =
       [Run ''stability-ai/sdxl'' (JObj
          [(''prompt'', JStr (recolor_prompt (getColorName col) (withDefault ''fabric'' (material body))
              (withDefault ''cushion'' (furniturePart body)))),
           (''negative_prompt'', JStr ''blurry, low quality, distorted, deformed, pixelated''),
           (''num_outputs'', JNum 1),
           (''scheduler'', JStr ''K_EULER''),
           (''num_inference_steps'', JNum 50),
           (''guidance_scale'', JNum (15 / 2)),
           (''seed'', seedOf r1)])] \<and>
     snd (fst (professional_recolor env provider' r2 (body\<lparr>imageUrl := Some url2\<rparr>))) =
       [Run ''stability-ai/sdxl'' (JObj
          [(''prompt'', JStr (recolor_prompt (getColorName col) (withDefault ''fabric'' (material body))
              (withDefault ''cushion'' (furniturePart body)))),
           (''negative_prompt'', JStr ''blurry, low quality, distorted, deformed, pixelated''),
           (''num_outputs'', JNum 1),
           (''scheduler'', JStr ''K_EULER''),
           (''num_inference_steps'', JNum 50),
           (''guidance_scale'', JNum (15 / 2)),
           (''seed'', seedOf r2)])] \<and>
     snd (professional_recolor env provider r1 body) = Some (processImageUrl env url1) \<and>
     (\<forall>kvs. fst (fst (professional_recolor env provider r1 body)) = Json 200 (JObj kvs) \<longrightarrow>
        map_of kvs ''maskUrl'' = Some (JStr url1))"
proof (intro impI)
  assume a: "imageUrl body = Some url1 \<and> url1 \<noteq> [] \<and> url2 \<noteq> [] \<and> color body = Some col \<and> col \<noteq> []"
  let ?body2 = "body\<lparr>imageUrl := Some url2\<rparr>"
  have req1: "required (imageUrl body) = Some url1" and col1: "required (color body) = Some col"
    using a by (simp_all add: required_def)
  have req2: "required (imageUrl ?body2) = Some url2" and col2: "required (color ?body2) = Some col"
    using a by (simp_all add: required_def)
  have "snd (fst (professional_recolor env provider r1 body)) =
       [Run ''stability-ai/sdxl'' (JObj
          [(''prompt'', JStr (recolor_prompt (getColorName col) (withDefault ''fabric'' (material body))
              (withDefault ''cushion'' (furniturePart body)))),
           (''negative_prompt'', JStr ''blurry, low quality, distorted, deformed, pixelated''),
           (''num_outputs'', JNum 1),
           (''scheduler'', JStr ''K_EULER''),
           (''num_inference_steps'', JNum 50),
           (''guidance_scale'', JNum (15 / 2)),
           (''seed'', seedOf r1)])]"
    by (simp add: professional_recolor_calls [OF req1 col1] sdxl_input_def)
  moreover have "snd (fst (professional_recolor env provider' r2 ?body2)) =
       [Run ''stability-ai/sdxl'' (JObj
          [(''prompt'', JStr (recolor_prompt (getColorName col) (withDefault ''fabric'' (material body))
              (withDefault ''cushion'' (furniturePart body)))),
           (''negative_prompt'', JStr ''blurry, low quality, distorted, deformed, pixelated''),
           (''num_outputs'', JNum 1),
           (''scheduler'', JStr ''K_EULER''),
           (''num_inference_steps'', JNum 50),
           (''guidance_scale'', JNum (15 / 2)),
           (''seed'', seedOf r2)])]"
    by (simp add: professional_recolor_calls [OF req2 col2] sdxl_input_def)
  moreover have "snd (professional_recolor env provider r1 body) = Some (processImageUrl env url1)"
    by (rule professional_recolor_finalUrl [OF req1 col1])
  moreover have "\<forall>kvs. fst (fst (professional_recolor env provider r1 body)) = Json 200 (JObj kvs) \<longrightarrow>
        map_of kvs ''maskUrl'' = Some (JStr url1)"
    using professional_recolor_maskUrl [OF req1] by blast
  ultimately show "snd (fst (professional_recolor env provider r1 body)) =
       [Run ''stability-ai/sdxl'' (JObj
          [(''prompt'', JStr (recolor_prompt (getColorName col) (withDefault ''fabric'' (material body))
              (withDefault ''cushion'' (furniturePart body)))),
           (''negative_prompt'', JStr ''blurry, low quality, distorted, deformed, pixelated''),
           (''num_outputs'', JNum 1),
           (''scheduler'', JStr ''K_EULER''),
           (''num_inference_steps'', JNum 50),
           (''guidance_scale'', JNum (15 / 2)),
           (''seed'', seedOf r1)])] \<and>
     snd (fst (professional_recolor env provider' r2 (body\<lparr>imageUrl := Some url2\<rparr>))) =
       [Run ''stability-ai/sdxl'' (JObj
          [(''prompt'', JStr (recolor_prompt (getColorName col) (withDefault ''fabric'' (material body))
              (withDefault ''cushion'' (furniturePart body)))),
           (''negative_prompt'', JStr ''blurry, low quality, distorted, deformed, pixelated''),
           (''num_outputs'', JNum 1),
           (''scheduler'', JStr ''K_EULER''),
           (''num_inference_steps'', JNum 50),
           (''guidance_scale'', JNum (15 / 2)),
           (''seed'', seedOf r2)])] \<and>
     snd (professional_recolor env provider r1 body) = Some (processImageUrl env url1) \<and>
     (\<forall>kvs. fst (fst (professional_recolor env provider r1 body)) = Json 200 (JObj kvs) \<longrightarrow>
        map_of kvs ''maskUrl'' = Some (JStr url1))"
    by blast
qed

theorem recolor_provider_input_has_no_image_witness:
  "snd (fst (professional_recolor \<lparr>REPLIT_DEV_DOMAIN = Some ''d.example''\<rparr>
      (\<lambda>call. Inr (JArr [JStr ''http://result/b.png''])) (1 / 4)
      (empty_body\<lparr>imageUrl := Some ''/uploads/a.png'', color := Some ''#FF0000''\<rparr>))) =
     [Run ''stability-ai/sdxl'' (JObj
        [(''prompt'', JStr ''red fabric cushion, professional furniture photography, high-end, realistic, maintaining original lighting and shadows, seamless material transition, photorealistic''),
         (''negative_prompt'', JStr ''blurry, low quality, distorted, deformed, pixelated''),
         (''num_outputs'', JNum 1),
         (''scheduler'', JStr ''K_EULER''),
         (''num_inference_steps'', JNum 50),
         (''guidance_scale'', JNum (15 / 2)),
         (''seed'', JNum 250000)])] \<and>
   snd (fst (professional_recolor \<lparr>REPLIT_DEV_DOMAIN = Some ''d.example''\<rparr>
      (\<lambda>call. Inr (JArr [JStr ''http://result/b.png''])) (1 / 4)
      (empty_body\<lparr>imageUrl := Some ''http://x/other.png'', color := Some ''#FF0000''\<rparr>))) =
     [Run ''stability-ai/sdxl'' (JObj
        [(''prompt'', JStr ''red fabric cushion, professional furniture photography, high-end, realistic, maintaining original lighting and shadows, seamless material transition, photorealistic''),
         (''negative_prompt'', JStr ''blurry, low quality, distorted, deformed, pixelated''),
         (''num_outputs'', JNum 1),
         (''scheduler'', JStr ''K_EULER''),
         (''num_inference_steps'', JNum 50),
         (''guidance_scale'', JNum (15 / 2)),
         (''seed'', JNum 250000)])] \<and>
   snd (professional_recolor \<lparr>REPLIT_DEV_DOMAIN = Some ''d.example''\<rparr>
      (\<lambda>call. Inr (JArr [JStr ''http://result/b.png''])) (1 / 4)
      (empty_body\<lparr>imageUrl := Some ''/uploads/a.png'', color := Some ''#FF0000''\<rparr>)) =
     Some ''https://d.example/uploads/a.png''"
proof -
  let ?b = "empty_body\<lparr>imageUrl := Some ''/uploads/a.png'', color := Some ''#FF0000''\<rparr>"
  have b2: "?b\<lparr>imageUrl := Some ''http://x/other.png''\<rparr> =
      empty_body\<lparr>imageUrl := Some ''http://x/other.png'', color := Some ''#FF0000''\<rparr>"
    by (simp add: empty_body_def)
  have hyp: "imageUrl ?b = Some ''/uploads/a.png'' \<and> ''/uploads/a.png'' \<noteq> [] \<and> ''http://x/other.png'' \<noteq> [] \<and>
      color ?b = Some ''#FF0000'' \<and> ''#FF0000'' \<noteq> []"
    by (simp add: empty_body_def)
  have name: "getColorName ''#FF0000'' = ''red''"
    by (simp add: getColorName_def lookupOr_def colorMap_def toUpperCase_def toUpperChar_def)
  have prompt: "recolor_prompt ''red'' (withDefault ''fabric'' (material ?b)) (withDefault ''cushion'' (furniturePart ?b)) =
      ''red fabric cushion, professional furniture photography, high-end, realistic, maintaining original lighting and shadows, seamless material transition, photorealistic''"
    by (simp add: recolor_prompt_def withDefault_def empty_body_def)
  have seed: "seedOf (1 / 4) = JNum 250000"
    by (simp add: seedOf_def)
  from recolor_provider_input_has_no_image
    [where body = ?b and ?url1.0 = "''/uploads/a.png''" and ?url2.0 = "''http://x/other.png''"
       and col = "''#FF0000''" and env = "\<lparr>REPLIT_DEV_DOMAIN = Some ''d.example''\<rparr>"
       and provider = "\<lambda>call. Inr (JArr [JStr ''http://result/b.png''])"
       and provider' = "\<lambda>call. Inr (JArr [JStr ''http://result/b.png''])"
       and ?r1.0 = "1 / 4" and ?r2.0 = "1 / 4"] hyp
  show ?thesis
    unfolding b2 name prompt seed processImageUrl_example by blast
qed

section \<open>Properties of the upload route\<close>

lemma upload_single_refused:
  "mimetype file \<notin> set ALLOWED_MIME_TYPES \<Longrightarrow> upload_single (Some file) = Inl InvalidFileType"
  by (simp add: upload_single_def fileFilter_def)

lemma upload_single_too_large:
  "mimetype file \<in> set ALLOWED_MIME_TYPES \<Longrightarrow> fileSize < length (buffer file) \<Longrightarrow>
   upload_single (Some file) = Inl LimitFileSize"
  by (simp add: upload_single_def fileFilter_def)

lemma upload_single_accepted:
  "mimetype file \<in> set ALLOWED_MIME_TYPES \<Longrightarrow> length (buffer file) \<le> fileSize \<Longrightarrow>
   upload_single (Some file) = Inr (Some file)"
  by (simp add: upload_single_def fileFilter_def)

lemma safeFileName_inj:
  assumes "length uuid = length uuid'" and "uuid \<noteq> uuid'"
  shows "safeFileName extname uuid file \<noteq> safeFileName extname uuid' file'"
  using assms by (simp add: safeFileName_def)

text \<open>
  C6. An upload whose declared MIME type is not one of \<^verbatim>\<open>ALLOWED_MIME_TYPES\<close>
  (JPEG under both of its names, PNG, GIF, WebP), or whose content is longer than 10 MiB, is
  rejected with an upload error and the upload directory stays as it was. An upload of an
  allowed type within the limit, when the write succeeds, is answered with
  \<^verbatim>\<open>path\<close>, \<^verbatim>\<open>fullUrl\<close>, \<^verbatim>\<open>filename\<close>, \<^verbatim>\<open>size\<close> and
  \<^verbatim>\<open>mimetype\<close>, and its bytes are stored under the directory at the name made of
  the fresh UUID and the lower-cased extension; two different UUIDs never give the same
  path.
\<close>

theorem post_upload_filter:
  "(mimetype refused \<notin> set ALLOWED_MIME_TYPES \<longrightarrow>
      post_upload env extname dir uuid written files (Some refused) = (Rejected InvalidFileType, files)) \<and>
   (mimetype big \<in> set ALLOWED_MIME_TYPES \<and> fileSize < length (buffer big) \<longrightarrow>
      post_upload env extname dir uuid written files (Some big) = (Rejected LimitFileSize, files)) \<and>
   (mimetype ok \<in> set ALLOWED_MIME_TYPES \<and> length (buffer ok) \<le> fileSize \<longrightarrow>
      post_upload env extname dir uuid True files (Some ok) =
        (Handled (Json 200 (JObj
           [(''path'', JStr (''/uploads/'' @ safeFileName extname uuid ok)),
            (''fullUrl'', JStr
               ((case required (REPLIT_DEV_DOMAIN env) of
                   Some d \<Rightarrow> ''https://'' @ d | None \<Rightarrow> ''http://localhost:5000'') @
                ''/uploads/'' @ safeFileName extname uuid ok)),
            (''filename'', JStr (originalname ok)),
            (''size'', JNum (of_nat (length (buffer ok)))),
            (''mimetype'', JStr (mimetype ok))])),
         files(dir @ ''/'' @ safeFileName extname uuid ok \<mapsto> buffer ok))) \<and>
   (length uuid = 36 \<and> length uuid' = 36 \<and> uuid \<noteq> uuid' \<longrightarrow>
      dir @ ''/'' @ safeFileName extname uuid ok \<noteq> dir @ ''/'' @ safeFileName extname uuid' ok')"
proof (intro conjI impI)
  assume "mimetype refused \<notin> set ALLOWED_MIME_TYPES"
  then show "post_upload env extname dir uuid written files (Some refused) = (Rejected InvalidFileType, files)"
    by (simp add: post_upload_def upload_single_refused)
next
  assume "mimetype big \<in> set ALLOWED_MIME_TYPES \<and> fileSize < length (buffer big)"
  then show "post_upload env extname dir uuid written files (Some big) = (Rejected LimitFileSize, files)"
    by (simp add: post_upload_def upload_single_too_large)
next
  assume "mimetype ok \<in> set ALLOWED_MIME_TYPES \<and> length (buffer ok) \<le> fileSize"
  then have "upload_single (Some ok) = Inr (Some ok)"
    by (simp add: upload_single_accepted)
  then show "post_upload env extname dir uuid True files (Some ok) =
        (Handled (Json 200 (JObj
           [(''path'', JStr (''/uploads/'' @ safeFileName extname uuid ok)),
            (''fullUrl'', JStr
               ((case required (REPLIT_DEV_DOMAIN env) of
                   Some d \<Rightarrow> ''https://'' @ d | None \<Rightarrow> ''http://localhost:5000'') @
                ''/uploads/'' @ safeFileName extname uuid ok)),
            (''filename'', JStr (originalname ok)),
            (''size'', JNum (of_nat (length (buffer ok)))),
            (''mimetype'', JStr (mimetype ok))])),
         files(dir @ ''/'' @ safeFileName extname uuid ok \<mapsto> buffer ok))"
    by (simp add: post_upload_def upload_handler_def Let_def)
next
  assume "length uuid = 36 \<and> length uuid' = 36 \<and> uuid \<noteq> uuid'"
  then have "safeFileName extname uuid ok \<noteq> safeFileName extname uuid' ok'"
    by (intro safeFileName_inj) simp_all
  then show "dir @ ''/'' @ safeFileName extname uuid ok \<noteq> dir @ ''/'' @ safeFileName extname uuid' ok'"
    by simp
qed

theorem post_upload_filter_witness:
  "post_upload \<lparr>REPLIT_DEV_DOMAIN = None\<rparr> (\<lambda>name. ''.PNG'') ''/app/uploads''
      ''123e4567-e89b-42d3-a456-426614174000'' True Map.empty
      (Some \<lparr>originalname = ''notes.PNG'', mimetype = ''text/plain'', buffer = ''abc''\<rparr>) =
     (Rejected InvalidFileType, Map.empty) \<and>
   post_upload \<lparr>REPLIT_DEV_DOMAIN = None\<rparr> (\<lambda>name. ''.PNG'') ''/app/uploads''
      ''123e4567-e89b-42d3-a456-426614174000'' True Map.empty
      (Some \<lparr>originalname = ''huge.PNG'', mimetype = ''image/png'',
              buffer = replicate 10485761 (CHR ''a'')\<rparr>) =
     (Rejected LimitFileSize, Map.empty) \<and>
   post_upload \<lparr>REPLIT_DEV_DOMAIN = None\<rparr> (\<lambda>name. ''.PNG'') ''/app/uploads''
      ''123e4567-e89b-42d3-a456-426614174000'' True Map.empty
      (Some \<lparr>originalname = ''sofa.PNG'', mimetype = ''image/png'', buffer = ''abc''\<rparr>) =
     (Handled (Json 200 (JObj
        [(''path'', JStr ''/uploads/123e4567-e89b-42d3-a456-426614174000.png''),
         (''fullUrl'', JStr ''http://localhost:5000/uploads/123e4567-e89b-42d3-a456-426614174000.png''),
         (''filename'', JStr ''sofa.PNG''),
         (''size'', JNum 3),
         (''mimetype'', JStr ''image/png'')])),
      [''/app/uploads/123e4567-e89b-42d3-a456-426614174000.png'' \<mapsto> ''abc'']) \<and>
   ''/app/uploads/123e4567-e89b-42d3-a456-426614174000.png'' \<noteq>
   ''/app/uploads/00000000-0000-4000-8000-000000000000.png''"
proof -
  let ?txt = "\<lparr>originalname = ''notes.PNG'', mimetype = ''text/plain'', buffer = ''abc''\<rparr>"
  let ?big = "\<lparr>originalname = ''huge.PNG'', mimetype = ''image/png'', buffer = replicate 10485761 (CHR ''a'')\<rparr>"
  let ?ok = "\<lparr>originalname = ''sofa.PNG'', mimetype = ''image/png'', buffer = ''abc''\<rparr>"
  have h1: "mimetype ?txt \<notin> set ALLOWED_MIME_TYPES"
    by (simp add: ALLOWED_MIME_TYPES_def)
  have h2: "mimetype ?big \<in> set ALLOWED_MIME_TYPES \<and> fileSize < length (buffer ?big)"
    by (simp add: ALLOWED_MIME_TYPES_def fileSize_def)
  have h3: "mimetype ?ok \<in> set ALLOWED_MIME_TYPES \<and> length (buffer ?ok) \<le> fileSize"
    by (simp add: ALLOWED_MIME_TYPES_def fileSize_def)
  have h4: "length ''123e4567-e89b-42d3-a456-426614174000'' = 36 \<and>
      length ''00000000-0000-4000-8000-000000000000'' = 36 \<and>
      ''123e4567-e89b-42d3-a456-426614174000'' \<noteq> ''00000000-0000-4000-8000-000000000000''"
    by simp
  have name: "safeFileName (\<lambda>name. ''.PNG'') ''123e4567-e89b-42d3-a456-426614174000'' ?ok =
      ''123e4567-e89b-42d3-a456-426614174000.png''"
    and name': "safeFileName (\<lambda>name. ''.PNG'') ''00000000-0000-4000-8000-000000000000'' ?ok =
      ''00000000-0000-4000-8000-000000000000.png''"
    by (simp_all add: safeFileName_def toLowerCase_def toLowerChar_def)
  from post_upload_filter
    [where refused = ?txt and big = ?big and ok = ?ok and ok' = ?ok
       and env = "\<lparr>REPLIT_DEV_DOMAIN = None\<rparr>" and extname = "\<lambda>name. ''.PNG''"
       and dir = "''/app/uploads''" and uuid = "''123e4567-e89b-42d3-a456-426614174000''"
       and uuid' = "''00000000-0000-4000-8000-000000000000''" and written = True and files = "Map.empty"]
    h1 h2 h3 h4
  show ?thesis
    unfolding name name' by (simp add: required_def)
qed

end
